theory Spec2Isabelle
  imports Complex_Main "HOL-Library.List_Lexorder" "HOL-Library.Char_ord"
begin

section \<open>JavaScript values\<close>

text \<open>
  The raw payloads of the Launch Library API are parsed JSON, and the mapped launch is a
  plain JavaScript object.  A value is \<open>undefined\<close>, \<open>null\<close>, a boolean, a number, a
  string, an array or an object; an object is the list of its own properties (key and
  value, keys distinct, in insertion order).  Numbers are rationals: every finite double
  is one, and JSON cannot denote \<open>NaN\<close> or an infinity.
\<close>

datatype jsval =
    Undefined
  | Null
  | Bool bool
  | Num rat
  | Str string
  | Arr "jsval list"
  | Obj "(string \<times> jsval) list"

datatype js_error =
    TypeError
  | SqliteError
  | ApiError string
  | StoreFailure string

text \<open>ToBoolean: the falsy values are \<open>undefined\<close>, \<open>null\<close>, \<open>false\<close>, \<open>0\<close> and \<open>""\<close>.\<close>

fun truthy :: "jsval \<Rightarrow> bool" where
  "truthy Undefined = False"
| "truthy Null = False"
| "truthy (Bool b) = b"
| "truthy (Num n) = (n \<noteq> 0)"
| "truthy (Str s) = (s \<noteq> [])"
| "truthy (Arr xs) = True"
| "truthy (Obj kvs) = True"

text \<open>\<open>a || b\<close>\<close>

definition or_js :: "jsval \<Rightarrow> jsval \<Rightarrow> jsval" where
  "or_js a b = (if truthy a then a else b)"

definition nullish :: "jsval \<Rightarrow> bool" where
  "nullish v = (v = Undefined \<or> v = Null)"

text \<open>
  \<open>v.k\<close> on a value that is neither \<open>undefined\<close> nor \<open>null\<close>: the own property of an
  object, and \<open>undefined\<close> when the object has no such property or the value is a
  primitive or an array (none of the keys read by this program is a property of the
  built-in prototypes).
\<close>

fun getp :: "jsval \<Rightarrow> string \<Rightarrow> jsval" where
  "getp (Obj kvs) k = (case map_of kvs k of None \<Rightarrow> Undefined | Some v \<Rightarrow> v)"
| "getp v k = Undefined"

text \<open>\<open>v.k\<close>: a TypeError on \<open>undefined\<close> and \<open>null\<close>.\<close>

definition dot :: "jsval \<Rightarrow> string \<Rightarrow> js_error + jsval" where
  "dot v k = (if nullish v then Inl TypeError else Inr (getp v k))"

text \<open>\<open>v?.k\<close>: \<open>undefined\<close> on \<open>undefined\<close> and \<open>null\<close>.\<close>

definition opt :: "jsval \<Rightarrow> string \<Rightarrow> jsval" where
  "opt v k = (if nullish v then Undefined else getp v k)"

text \<open>\<open>s.includes(sub)\<close>\<close>

fun includes_js :: "string \<Rightarrow> string \<Rightarrow> bool" where
  "includes_js [] sub = (sub = [])"
| "includes_js (c # cs) sub = (take (length sub) (c # cs) = sub \<or> includes_js cs sub)"

section \<open>The mapping step (\<open>mapLaunchToDb\<close> of launchLibrary.js, in backend/src/services/spacex.js)\<close>

text \<open>
  Every entry of the object literal starts with a plain property access on \<open>apiLaunch\<close>,
  which throws a TypeError when \<open>apiLaunch\<close> is \<open>null\<close> or \<open>undefined\<close>; the rest of each
  path uses optional chaining.  Otherwise the result is the object with these 51
  properties, in the order of the source.
\<close>

definition mapLaunchToDb :: "jsval \<Rightarrow> js_error + jsval" where
  "mapLaunchToDb apiLaunch =
    (if nullish apiLaunch then Inl TypeError
     else Inr (Obj [
      (''id'', getp apiLaunch ''id''),
      (''name'', or_js (getp apiLaunch ''name'') Null),
      (''slug'', or_js (getp apiLaunch ''slug'') Null),
      (''status_id'', or_js (opt (getp apiLaunch ''status'') ''id'') Null),
      (''status_name'', or_js (opt (getp apiLaunch ''status'') ''name'') Null),
      (''status_abbrev'', or_js (opt (getp apiLaunch ''status'') ''abbrev'') Null),
      (''status_description'', or_js (opt (getp apiLaunch ''status'') ''description'') Null),
      (''net'', or_js (getp apiLaunch ''net'') Null),
      (''window_start'', or_js (getp apiLaunch ''window_start'') Null),
      (''window_end'', or_js (getp apiLaunch ''window_end'') Null),
      (''rocket_id'', or_js (opt (opt (getp apiLaunch ''rocket'') ''configuration'') ''id'') Null),
      (''rocket_name'', or_js (opt (opt (getp apiLaunch ''rocket'') ''configuration'') ''name'') Null),
      (''rocket_family'', or_js (opt (opt (getp apiLaunch ''rocket'') ''configuration'') ''family'') Null),
      (''rocket_variant'', or_js (opt (opt (getp apiLaunch ''rocket'') ''configuration'') ''variant'') Null),
      (''rocket_full_name'', or_js (opt (opt (getp apiLaunch ''rocket'') ''configuration'') ''full_name'') Null),
      (''provider_id'', or_js (opt (getp apiLaunch ''launch_service_provider'') ''id'') Null),
      (''provider_name'', or_js (opt (getp apiLaunch ''launch_service_provider'') ''name'') Null),
      (''provider_abbrev'', or_js (opt (getp apiLaunch ''launch_service_provider'') ''abbrev'') Null),
      (''provider_type'', or_js (opt (getp apiLaunch ''launch_service_provider'') ''type'') Null),
      (''provider_country_code'', or_js (opt (getp apiLaunch ''launch_service_provider'') ''country_code'') Null),
      (''pad_id'', or_js (opt (getp apiLaunch ''pad'') ''id'') Null),
      (''pad_name'', or_js (opt (getp apiLaunch ''pad'') ''name'') Null),
      (''pad_wiki_url'', or_js (opt (getp apiLaunch ''pad'') ''wiki_url'') Null),
      (''pad_map_url'', or_js (opt (getp apiLaunch ''pad'') ''map_url'') Null),
      (''pad_latitude'', or_js (opt (getp apiLaunch ''pad'') ''latitude'') Null),
      (''pad_longitude'', or_js (opt (getp apiLaunch ''pad'') ''longitude'') Null),
      (''location_id'', or_js (opt (opt (getp apiLaunch ''pad'') ''location'') ''id'') Null),
      (''location_name'', or_js (opt (opt (getp apiLaunch ''pad'') ''location'') ''name'') Null),
      (''location_country_code'', or_js (opt (opt (getp apiLaunch ''pad'') ''location'') ''country_code'') Null),
      (''location_map_image'', or_js (opt (opt (getp apiLaunch ''pad'') ''location'') ''map_image'') Null),
      (''location_timezone'', or_js (opt (opt (getp apiLaunch ''pad'') ''location'') ''timezone_name'') Null),
      (''mission_id'', or_js (opt (getp apiLaunch ''mission'') ''id'') Null),
      (''mission_name'', or_js (opt (getp apiLaunch ''mission'') ''name'') Null),
      (''mission_description'', or_js (opt (getp apiLaunch ''mission'') ''description'') Null),
      (''mission_type'', or_js (opt (getp apiLaunch ''mission'') ''type'') Null),
      (''mission_orbit_id'', or_js (opt (opt (getp apiLaunch ''mission'') ''orbit'') ''id'') Null),
      (''mission_orbit_name'', or_js (opt (opt (getp apiLaunch ''mission'') ''orbit'') ''name'') Null),
      (''mission_orbit_abbrev'', or_js (opt (opt (getp apiLaunch ''mission'') ''orbit'') ''abbrev'') Null),
      (''spacecraft_stage_id'', or_js (opt (opt (getp apiLaunch ''rocket'') ''spacecraft_stage'') ''id'') Null),
      (''spacecraft_name'', or_js (opt (opt (opt (getp apiLaunch ''rocket'') ''spacecraft_stage'') ''spacecraft'') ''name'') Null),
      (''spacecraft_serial_number'', or_js (opt (opt (opt (getp apiLaunch ''rocket'') ''spacecraft_stage'') ''spacecraft'') ''serial_number'') Null),
      (''spacecraft_status'', or_js (opt (opt (opt (opt (getp apiLaunch ''rocket'') ''spacecraft_stage'') ''spacecraft'') ''status'') ''name'') Null),
      (''spacecraft_description'', or_js (opt (opt (opt (getp apiLaunch ''rocket'') ''spacecraft_stage'') ''spacecraft'') ''description'') Null),
      (''spacecraft_destination'', or_js (opt (opt (getp apiLaunch ''rocket'') ''spacecraft_stage'') ''destination'') Null),
      (''payload_count'', or_js (opt (opt (getp apiLaunch ''rocket'') ''spacecraft_stage'') ''spacecraft_count'') Null),
      (''payload_total_mass_kg'', or_js (opt (opt (opt (opt (getp apiLaunch ''rocket'') ''spacecraft_stage'') ''spacecraft'') ''spacecraft_config'') ''payload_capacity'') Null),
      (''image_url'', or_js (getp apiLaunch ''image'') Null),
      (''infographic_url'', or_js (getp apiLaunch ''infographic'') Null),
      (''webcast_live'', (if truthy (getp apiLaunch ''webcast_live'') then Num 1 else Num 0)),
      (''slug_url'', or_js (getp apiLaunch ''url'') Null),
      (''last_updated'', or_js (getp apiLaunch ''last_updated'') Null)]))"

section \<open>The store (backend/src/db/database.js, backend/src/db/schema.sql)\<close>

text \<open>
  A table is the list of its rows and a row the list of its columns.  The clock is a
  parameter: \<open>now\<close> is the reading of \<open>CURRENT_TIMESTAMP\<close> (or of \<open>new Date()\<close>), in
  seconds.  The driver (bun:sqlite) binds \<open>undefined\<close> and \<open>null\<close> as \<open>NULL\<close>, a
  boolean as 1 or 0, strings and numbers as they are; an array or an object cannot be
  bound as the value of a parameter and the driver throws.  A row holds the values as
  the driver reads them back.
\<close>

type_synonym row = "(string \<times> jsval) list"

definition col :: "row \<Rightarrow> string \<Rightarrow> jsval" where
  "col r c = (case map_of r c of None \<Rightarrow> Null | Some v \<Rightarrow> v)"

record sync_run =
  run_id :: int
  sync_type :: string
  started_at :: nat
  completed_at :: "nat option"
  records_fetched :: int
  records_added :: int
  records_updated :: int
  records_unchanged :: int
  status :: string
  error_message :: "string option"
  api_calls_made :: int
  last_api_offset :: "int option"

record database =
  launches :: "row list"
  manual_payloads :: "row list"
  sync_log :: "sync_run list"

fun bindable :: "jsval \<Rightarrow> bool" where
  "bindable (Arr xs) = False"
| "bindable (Obj kvs) = False"
| "bindable v = True"

fun bindv :: "jsval \<Rightarrow> jsval" where
  "bindv Undefined = Null"
| "bindv (Bool b) = Num (if b then 1 else 0)"
| "bindv v = v"

text \<open>SQL equality: never true when an operand is \<open>NULL\<close>.\<close>

definition sql_eq :: "jsval \<Rightarrow> jsval \<Rightarrow> bool" where
  "sql_eq a b = (\<not> nullish a \<and> \<not> nullish b \<and> a = b)"

text \<open>
  Column affinity.  SQLite converts a value on its way into a column by the type the
  column was declared with.  These are the declared types of the columns of \<open>launches\<close>
  (schema.sql, where they are written in upper case) and the affinity of a declared type.
\<close>

definition declared_types :: "(string \<times> string) list" where
  "declared_types =
    [(''id'', ''TEXT''), (''name'', ''TEXT''), (''slug'', ''TEXT''),
     (''status_id'', ''INTEGER''), (''status_name'', ''TEXT''),
     (''status_abbrev'', ''TEXT''), (''status_description'', ''TEXT''),
     (''net'', ''DATETIME''), (''window_start'', ''DATETIME''),
     (''window_end'', ''DATETIME''), (''rocket_id'', ''INTEGER''),
     (''rocket_name'', ''TEXT''), (''rocket_family'', ''TEXT''),
     (''rocket_variant'', ''TEXT''), (''rocket_full_name'', ''TEXT''),
     (''provider_id'', ''INTEGER''), (''provider_name'', ''TEXT''),
     (''provider_abbrev'', ''TEXT''), (''provider_type'', ''TEXT''),
     (''provider_country_code'', ''TEXT''), (''pad_id'', ''INTEGER''),
     (''pad_name'', ''TEXT''), (''pad_wiki_url'', ''TEXT''), (''pad_map_url'', ''TEXT''),
     (''pad_latitude'', ''REAL''), (''pad_longitude'', ''REAL''),
     (''location_id'', ''INTEGER''), (''location_name'', ''TEXT''),
     (''location_country_code'', ''TEXT''), (''location_map_image'', ''TEXT''),
     (''location_timezone'', ''TEXT''), (''mission_id'', ''INTEGER''),
     (''mission_name'', ''TEXT''), (''mission_description'', ''TEXT''),
     (''mission_type'', ''TEXT''), (''mission_orbit_id'', ''INTEGER''),
     (''mission_orbit_name'', ''TEXT''), (''mission_orbit_abbrev'', ''TEXT''),
     (''spacecraft_stage_id'', ''INTEGER''), (''spacecraft_name'', ''TEXT''),
     (''spacecraft_serial_number'', ''TEXT''), (''spacecraft_status'', ''TEXT''),
     (''spacecraft_description'', ''TEXT''), (''spacecraft_destination'', ''TEXT''),
     (''payload_count'', ''INTEGER''), (''payload_total_mass_kg'', ''REAL''),
     (''image_url'', ''TEXT''), (''infographic_url'', ''TEXT''),
     (''webcast_live'', ''INTEGER''), (''slug_url'', ''TEXT''),
     (''last_updated'', ''DATETIME''), (''imported_at'', ''DATETIME''),
     (''updated_at'', ''DATETIME'')]"

datatype affinity =
    Text_affinity
  | Numeric_affinity
  | Integer_affinity
  | Real_affinity
  | Blob_affinity

definition affinity_of :: "string \<Rightarrow> affinity" where
  "affinity_of t =
    (if includes_js t ''INT'' then Integer_affinity
     else if includes_js t ''CHAR'' \<or> includes_js t ''CLOB'' \<or> includes_js t ''TEXT''
     then Text_affinity
     else if includes_js t ''BLOB'' \<or> t = [] then Blob_affinity
     else if includes_js t ''REAL'' \<or> includes_js t ''FLOA'' \<or> includes_js t ''DOUB''
     then Real_affinity
     else Numeric_affinity)"

definition column_affinity :: "string \<Rightarrow> affinity" where
  "column_affinity c =
    (case map_of declared_types c of None \<Rightarrow> Blob_affinity | Some t \<Rightarrow> affinity_of t)"

text \<open>
  A text is stored as a number in a column of numeric, integer or real affinity when the
  whole of it is a decimal literal: white space, a sign, digits with at most one point
  and at least one digit, an exponent (\<open>e\<close>, a sign, at least one digit), white space;
  sign, point and exponent are optional, and a hexadecimal literal is not converted.  The
  number is the exact value of the literal (its rounding to a double is not modelled).
\<close>

definition sqlite_space :: "char \<Rightarrow> bool" where
  "sqlite_space c = ((of_char c :: nat) \<in> {9, 10, 11, 12, 13, 32})"

definition decimal_digit :: "char \<Rightarrow> bool" where
  "decimal_digit c = (48 \<le> (of_char c :: nat) \<and> (of_char c :: nat) \<le> 57)"

definition decimal_value :: "string \<Rightarrow> int" where
  "decimal_value ds = foldl (\<lambda>acc c. acc * 10 + ((of_char c :: int) - 48)) 0 ds"

definition signed :: "string \<Rightarrow> bool \<times> string" where
  "signed s =
    (if take 1 s = ''-'' then (True, drop 1 s)
     else if take 1 s = ''+'' then (False, drop 1 s) else (False, s))"

definition pow10 :: "int \<Rightarrow> rat" where
  "pow10 k = (if 0 \<le> k then 10 ^ nat k else 1 / 10 ^ nat (- k))"

definition numeric_literal :: "string \<Rightarrow> rat option" where
  "numeric_literal s =
    (let (neg, s1) = signed (dropWhile sqlite_space s);
         ip = takeWhile decimal_digit s1;
         s2 = dropWhile decimal_digit s1;
         point = (take 1 s2 = ''.'');
         fp = (if point then takeWhile decimal_digit (drop 1 s2) else []);
         s3 = (if point then dropWhile decimal_digit (drop 1 s2) else s2);
         expo = (take 1 s3 = ''e'' \<or> take 1 s3 = ''E'');
         (eneg, s4) = signed (drop 1 s3);
         ep = takeWhile decimal_digit s4;
         s5 = (if expo then dropWhile decimal_digit s4 else s3)
     in if ip @ fp = [] \<or> (expo \<and> ep = []) \<or> dropWhile sqlite_space s5 \<noteq> [] then None
        else Some ((if neg then - 1 else 1) * of_int (decimal_value (ip @ fp)) *
                   pow10 ((if expo then (if eneg then - 1 else 1) * decimal_value ep else 0)
                          - int (length fp))))"

text \<open>
  A number is stored as text in a column of text affinity.  The driver binds a number
  that is an integer from \<open>-2^51\<close> up to, not including, \<open>2^51\<close> as an integer, which SQLite
  writes in decimal digits; it binds any other number as a double, which SQLite writes as
  \<open>printf("%!.15g")\<close> does: 15 significant digits, rounded half up, without the zeros at
  the end but with a point and a digit after it, and with an exponent of at least two
  digits when the decimal exponent is below \<open>-4\<close> or above 14.
\<close>

function decimal :: "int \<Rightarrow> string" where
  "decimal n =
    (if n < 10 then [char_of (48 + n)] else decimal (n div 10) @ [char_of (48 + n mod 10)])"
  by pat_completeness auto

termination decimal
  by (relation "measure nat") auto

definition trim_zeros :: "string \<Rightarrow> string" where
  "trim_zeros ds = rev (dropWhile (\<lambda>c. c = CHR ''0'') (rev ds))"

text \<open>The \<open>e\<close> with \<open>10^e \<le> a < 10^(e+1)\<close>, for a positive \<open>a\<close>.\<close>

definition decimal_exponent :: "rat \<Rightarrow> int" where
  "decimal_exponent a =
    (let (n, d) = quotient_of a;
         k = int (length (decimal n)) - int (length (decimal d))
     in if pow10 k \<le> a then k else k - 1)"

definition real_text :: "rat \<Rightarrow> string" where
  "real_text q =
    (let a = \<bar>q\<bar>;
         e0 = decimal_exponent a;
         m0 = \<lfloor>a * pow10 (14 - e0) + 1 / 2\<rfloor>;
         e = (if m0 = 10 ^ 15 then e0 + 1 else e0);
         ds = decimal (if m0 = 10 ^ 15 then 10 ^ 14 else m0);
         frac = (\<lambda>fs. if trim_zeros fs = [] then ''0'' else trim_zeros fs)
     in (if q < 0 then ''-'' else []) @
        (if e < - 4 \<or> 14 < e
         then take 1 ds @ ''.'' @ frac (drop 1 ds) @ ''e'' @ (if e < 0 then ''-'' else ''+'') @
              (if \<bar>e\<bar> < 10 then ''0'' else []) @ decimal \<bar>e\<bar>
         else if 0 \<le> e
         then take (nat e + 1) ds @ ''.'' @ frac (drop (nat e + 1) ds)
         else ''0.'' @ replicate (nat (- e - 1)) CHR ''0'' @ trim_zeros ds))"

definition number_text :: "rat \<Rightarrow> string" where
  "number_text q =
    (if q = of_int \<lfloor>q\<rfloor> \<and> - (2 ^ 51) \<le> q \<and> q < 2 ^ 51
     then (if q < 0 then ''-'' else []) @ decimal \<bar>\<lfloor>q\<rfloor>\<bar>
     else real_text q)"

text \<open>
  The value a column of the given affinity holds for a bound value, as the driver reads
  it back: a number for the storage classes \<open>INTEGER\<close> and \<open>REAL\<close>, a string for
  \<open>TEXT\<close>, \<open>null\<close> for \<open>NULL\<close>.
\<close>

fun apply_affinity :: "affinity \<Rightarrow> jsval \<Rightarrow> jsval" where
  "apply_affinity Text_affinity (Num q) = Str (number_text q)"
| "apply_affinity Text_affinity v = v"
| "apply_affinity Blob_affinity v = v"
| "apply_affinity a (Str s) = (case numeric_literal s of None \<Rightarrow> Str s | Some q \<Rightarrow> Num q)"
| "apply_affinity a v = v"

text \<open>What the column \<open>c\<close> of \<open>launches\<close> holds after the value \<open>v\<close> was bound for it.\<close>

definition store_value :: "string \<Rightarrow> jsval \<Rightarrow> jsval" where
  "store_value c v = apply_affinity (column_affinity c) (bindv v)"

text \<open>The columns named in the \<open>INSERT\<close> of \<open>upsertLaunch\<close>, before \<open>updated_at\<close>.\<close>

definition launch_columns :: "string list" where
  "launch_columns =
    [''id'', ''name'', ''slug'', ''status_id'', ''status_name'', ''status_abbrev'',
     ''status_description'', ''net'', ''window_start'', ''window_end'', ''rocket_id'',
     ''rocket_name'', ''rocket_family'', ''rocket_variant'', ''rocket_full_name'',
     ''provider_id'', ''provider_name'', ''provider_abbrev'', ''provider_type'',
     ''provider_country_code'', ''pad_id'', ''pad_name'', ''pad_wiki_url'', ''pad_map_url'',
     ''pad_latitude'', ''pad_longitude'', ''location_id'', ''location_name'',
     ''location_country_code'', ''location_map_image'', ''location_timezone'',
     ''mission_id'', ''mission_name'', ''mission_description'', ''mission_type'',
     ''mission_orbit_id'', ''mission_orbit_name'', ''mission_orbit_abbrev'',
     ''spacecraft_stage_id'', ''spacecraft_name'', ''spacecraft_serial_number'',
     ''spacecraft_status'', ''spacecraft_description'', ''spacecraft_destination'',
     ''payload_count'', ''payload_total_mass_kg'', ''image_url'', ''infographic_url'',
     ''webcast_live'', ''slug_url'', ''last_updated'']"

text \<open>The columns of the table \<open>launches\<close> (schema.sql).\<close>

definition table_columns :: "string list" where
  "table_columns = launch_columns @ [''imported_at'', ''updated_at'']"

text \<open>
  \<open>ON CONFLICT(id) DO UPDATE SET\<close>: every column of the \<open>INSERT\<close> but \<open>id\<close> takes the
  new value and \<open>updated_at\<close> the clock; \<open>id\<close> and \<open>imported_at\<close> stay.
\<close>

definition on_conflict_update :: "nat \<Rightarrow> row \<Rightarrow> row \<Rightarrow> row" where
  "on_conflict_update now new r =
    map (\<lambda>c. (c, if c = ''updated_at'' then Num (of_nat now)
                  else if c = ''id'' \<or> c = ''imported_at'' then col r c
                  else col new c)) table_columns"

text \<open>The values that the columns of the \<open>INSERT\<close> hold for a launch.\<close>

definition bound_row :: "jsval \<Rightarrow> row" where
  "bound_row launch = map (\<lambda>c. (c, store_value c (getp launch c))) launch_columns"

text \<open>
  \<open>upsertLaunch\<close>: \<open>Object.entries(launch)\<close> throws on \<open>null\<close> and \<open>undefined\<close>; the
  statement binds the launch's property for each of its named parameters, and each
  column converts what was bound for it; the schema declares \<open>name TEXT NOT NULL\<close>, so
  a \<open>NULL\<close> name aborts the statement; the conflict is on the \<open>id\<close> as the column
  holds it; a new row gets \<open>imported_at\<close> (the default of the schema) and
  \<open>updated_at\<close> from the clock.  The result is \<open>changes\<close> (one row inserted or
  updated) and the new database.
\<close>

definition upsertLaunch :: "nat \<Rightarrow> database \<Rightarrow> jsval \<Rightarrow> js_error + (int \<times> database)" where
  "upsertLaunch now db launch =
    (if nullish launch then Inl TypeError
     else if \<exists>c \<in> set launch_columns. \<not> bindable (getp launch c) then Inl TypeError
     else
       let new = bound_row launch;
           idv = col new ''id''
       in if nullish (col new ''name'') then Inl SqliteError
          else if \<exists>r \<in> set (launches db). sql_eq (col r ''id'') idv
          then Inr (1, db\<lparr>launches :=
                 map (\<lambda>r. if sql_eq (col r ''id'') idv then on_conflict_update now new r else r)
                     (launches db)\<rparr>)
          else Inr (1, db\<lparr>launches := launches db @
                 [new @ [(''imported_at'', Num (of_nat now)), (''updated_at'', Num (of_nat now))]]\<rparr>))"

text \<open>SQLite's \<open>LIKE\<close> on text: \<open>%\<close> matches any run of characters, \<open>_\<close> one character,
  and ASCII letters match without regard to case.\<close>

definition lower_ascii :: "char \<Rightarrow> char" where
  "lower_ascii c =
    (if 65 \<le> (of_char c :: nat) \<and> (of_char c :: nat) \<le> 90 then char_of (of_char c + (32::nat)) else c)"

fun like_match :: "string \<Rightarrow> string \<Rightarrow> bool" where
  "like_match [] s = (s = [])"
| "like_match (p # ps) [] = (p = CHR ''%'' \<and> like_match ps [])"
| "like_match (p # ps) (c # cs) =
    (if p = CHR ''%'' then like_match ps (c # cs) \<or> like_match (p # ps) cs
     else if p = CHR ''_'' then like_match ps cs
     else lower_ascii p = lower_ascii c \<and> like_match ps cs)"

fun sql_like :: "jsval \<Rightarrow> jsval \<Rightarrow> bool" where
  "sql_like (Str s) (Str p) = like_match p s"
| "sql_like v p = False"

text \<open>
  \<open>FROM launches LEFT JOIN manual_payloads ON launches.name LIKE
  manual_payloads.mission_pattern\<close>: one row per matching pattern, and one row with
  \<open>NULL\<close>s when no pattern matches.
\<close>

definition left_join :: "row list \<Rightarrow> row \<Rightarrow> row list" where
  "left_join mps r =
    (case filter (\<lambda>m. sql_like (col r ''name'') (col m ''mission_pattern'')) mps of
       [] \<Rightarrow> [r @ [(''manual_payload_mass_kg'', Null), (''manual_payload_source'', Null)]]
     | ms \<Rightarrow> map (\<lambda>m. r @ [(''manual_payload_mass_kg'', col m ''payload_mass_kg''),
                            (''manual_payload_source'', col m ''source'')]) ms)"

text \<open>
  What \<open>stmt.get(id)\<close> binds to the one parameter of a statement.  The driver takes an
  array for the list of the positional parameters (of which the statement has one, and
  without an element the parameter stays \<open>NULL\<close>) and any other object for named
  parameters (of which the statement has none); every other value is the parameter.
\<close>

fun get_parameter :: "jsval \<Rightarrow> js_error + jsval" where
  "get_parameter (Arr []) = Inr Null"
| "get_parameter (Arr (v # vs)) = (if bindable v then Inr (bindv v) else Inl TypeError)"
| "get_parameter (Obj kvs) = Inr Null"
| "get_parameter v = Inr (bindv v)"

text \<open>
  \<open>getLaunchById\<close>: the first row of the join whose \<open>id\<close> is the parameter,
  \<open>None\<close> when there is none.  The column \<open>id\<close> has text affinity, which the
  comparison applies to the parameter.
\<close>

definition getLaunchById :: "database \<Rightarrow> jsval \<Rightarrow> js_error + row option" where
  "getLaunchById db idv =
    (case get_parameter idv of
       Inl e \<Rightarrow> Inl e
     | Inr p \<Rightarrow>
        (case concat (map (left_join (manual_payloads db))
                           (filter (\<lambda>r. sql_eq (col r ''id'') (apply_affinity Text_affinity p))
                                   (launches db))) of
           [] \<Rightarrow> Inr None
         | r # rs \<Rightarrow> Inr (Some r)))"

section \<open>The sync journal (\<open>createSyncLog\<close>, \<open>updateSyncLog\<close>)\<close>

text \<open>
  \<open>createSyncLog\<close> inserts a row with the given type, the clock and the status
  \<open>'running'\<close>; the other columns take the defaults of the schema (counters 0, no offset)
  and \<open>id\<close> is \<open>AUTOINCREMENT\<close>.  Rows of the journal are never deleted, so the new
  id is one more than the largest id of the table.
\<close>

definition next_run_id :: "sync_run list \<Rightarrow> int" where
  "next_run_id rs = fold max (map run_id rs) 0 + 1"

definition createSyncLog :: "nat \<Rightarrow> database \<Rightarrow> string \<Rightarrow> int \<times> database" where
  "createSyncLog now db syncType =
    (let new_id = next_run_id (sync_log db) in
     (new_id,
      db\<lparr>sync_log := sync_log db @
        [\<lparr>run_id = new_id, sync_type = syncType, started_at = now, completed_at = None,
          records_fetched = 0, records_added = 0, records_updated = 0, records_unchanged = 0,
          status = ''running'', error_message = None, api_calls_made = 0,
          last_api_offset = None\<rparr>]\<rparr>))"

text \<open>The entries of the \<open>updates\<close> object: one constructor for each column written.\<close>

datatype sync_field =
    Status string
  | Completed_at nat
  | Error_message string
  | Records_fetched int
  | Records_added int
  | Records_updated int
  | Records_unchanged int
  | Api_calls_made int
  | Last_api_offset int

fun set_field :: "sync_run \<Rightarrow> sync_field \<Rightarrow> sync_run" where
  "set_field r (Status s) = r\<lparr>status := s\<rparr>"
| "set_field r (Completed_at t) = r\<lparr>completed_at := Some t\<rparr>"
| "set_field r (Error_message m) = r\<lparr>error_message := Some m\<rparr>"
| "set_field r (Records_fetched n) = r\<lparr>records_fetched := n\<rparr>"
| "set_field r (Records_added n) = r\<lparr>records_added := n\<rparr>"
| "set_field r (Records_updated n) = r\<lparr>records_updated := n\<rparr>"
| "set_field r (Records_unchanged n) = r\<lparr>records_unchanged := n\<rparr>"
| "set_field r (Api_calls_made n) = r\<lparr>api_calls_made := n\<rparr>"
| "set_field r (Last_api_offset n) = r\<lparr>last_api_offset := Some n\<rparr>"

text \<open>\<open>UPDATE sync_log SET ... WHERE id = ?\<close>\<close>

definition updateSyncLog :: "database \<Rightarrow> int \<Rightarrow> sync_field list \<Rightarrow> database" where
  "updateSyncLog db sid updates =
    db\<lparr>sync_log := map (\<lambda>r. if run_id r = sid then foldl set_field r updates else r)
                          (sync_log db)\<rparr>"

section \<open>The adapter and the control flow of the scripts\<close>

text \<open>
  \<open>fetchLaunches\<close> either returns the parsed response or throws an error with a
  message.  A run is driven by the list of what its calls of \<open>fetchLaunches\<close> do, in
  order, each with the reading of the clock when the call completes.  When the list is
  used up the process is still waiting for the adapter (or was killed there): the run
  has not exited.
\<close>

datatype fetch_outcome = Returns jsval | Throws string

type_synonym script = "(nat \<times> fetch_outcome) list"

datatype run_result = Exited int database | Interrupted database

fun db_of :: "run_result \<Rightarrow> database" where
  "db_of (Exited code db) = db"
| "db_of (Interrupted db) = db"

text \<open>\<open>error.message\<close>\<close>

fun message :: "js_error \<Rightarrow> string" where
  "message TypeError = ''TypeError''"
| "message SqliteError = ''constraint failed''"
| "message (ApiError m) = m"
| "message (StoreFailure m) = m"

text \<open>A statement completes normally or throws; both leave a state behind.\<close>

datatype 's completion = Normal 's | Abrupt js_error 's

text \<open>\<open>for (const x of xs) body\<close>\<close>

fun for_of :: "('a \<Rightarrow> 's \<Rightarrow> 's completion) \<Rightarrow> 'a list \<Rightarrow> 's \<Rightarrow> 's completion" where
  "for_of body [] s = Normal s"
| "for_of body (x # xs) s =
    (case body x s of Normal s' \<Rightarrow> for_of body xs s' | Abrupt e s' \<Rightarrow> Abrupt e s')"

text \<open>
  What \<open>for ... of\<close> iterates over: the elements of an array, the characters of a
  string; any other value is not iterable (TypeError).
\<close>

fun iterate :: "jsval \<Rightarrow> js_error + jsval list" where
  "iterate (Arr xs) = Inr xs"
| "iterate (Str s) = Inr (map (\<lambda>c. Str [c]) s)"
| "iterate v = Inl TypeError"

text \<open>\<open>v.length\<close> of a value that is not \<open>null\<close> or \<open>undefined\<close>\<close>

fun js_length :: "jsval \<Rightarrow> jsval" where
  "js_length (Arr xs) = Num (of_nat (length xs))"
| "js_length (Str s) = Num (of_nat (length s))"
| "js_length v = getp v ''length''"

text \<open>
  \<open>a === b\<close> between a value read from the store or the response and another one:
  primitives are compared by value, and two arrays or objects are never the same
  object.
\<close>

definition strict_eq :: "jsval \<Rightarrow> jsval \<Rightarrow> bool" where
  "strict_eq a b = (a = b \<and> bindable a)"

text \<open>The local variables of a sync script, and the database it writes.\<close>

record run_state =
  syncId :: int
  offset :: int
  totalFetched :: int
  totalAdded :: int
  totalUpdated :: int
  totalUnchanged :: int
  apiCalls :: int
  sdb :: database

definition BATCH_SIZE :: int where
  "BATCH_SIZE = 100"

text \<open>
  A value in a template literal is converted to a string.  For a value of parsed JSON
  the conversion throws a TypeError on an object with an own property \<open>toString\<close>
  (which is not a function, and \<open>valueOf\<close> does not give a primitive either), and on an
  array with an element for which it throws; the elements \<open>null\<close> and \<open>undefined\<close>
  of an array are not converted.
\<close>

fun printable :: "jsval \<Rightarrow> bool" where
  "printable (Obj kvs) = (map_of kvs ''toString'' = None)"
| "printable (Arr xs) = list_all printable xs"
| "printable v = True"

text \<open>
  The \<open>catch\<close> block of the per-record \<open>try\<close>: it logs the message with
  \<open>${apiLaunch.id}\<close>, which itself throws when \<open>apiLaunch\<close> is \<open>null\<close> and when the
  id cannot be converted to a string.
\<close>

definition catch_record :: "jsval \<Rightarrow> run_state \<Rightarrow> run_state completion" where
  "catch_record apiLaunch s =
    (case dot apiLaunch ''id'' of
       Inl e \<Rightarrow> Abrupt e s
     | Inr v \<Rightarrow> if printable v then Normal s else Abrupt TypeError s)"

section \<open>Incremental sync (dailySync.js, in backend/src/config.js)\<close>

text \<open>
  The body of the per-record \<open>try\<close>.  \<open>totalFetched\<close> is incremented before the
  write, so it stays incremented when the write throws.
\<close>

definition daily_record :: "nat \<Rightarrow> jsval \<Rightarrow> run_state \<Rightarrow> run_state completion" where
  "daily_record now apiLaunch s =
    (case mapLaunchToDb apiLaunch of
       Inl e \<Rightarrow> catch_record apiLaunch s
     | Inr mapped \<Rightarrow>
        (case getLaunchById (sdb s) (getp apiLaunch ''id'') of
           Inl e \<Rightarrow> catch_record apiLaunch s
         | Inr existing \<Rightarrow>
            let s1 = s\<lparr>totalFetched := totalFetched s + 1\<rparr> in
            (case existing of
               None \<Rightarrow>
                 (case upsertLaunch now (sdb s1) mapped of
                    Inl e \<Rightarrow> catch_record apiLaunch s1
                  | Inr (result, db') \<Rightarrow>
                      Normal (s1\<lparr>sdb := db', totalAdded := totalAdded s1 + 1\<rparr>))
             | Some ex \<Rightarrow>
                 if \<not> strict_eq (col ex ''last_updated'') (getp mapped ''last_updated'')
                 then (case upsertLaunch now (sdb s1) mapped of
                         Inl e \<Rightarrow> catch_record apiLaunch s1
                       | Inr (result, db') \<Rightarrow>
                           Normal (s1\<lparr>sdb := db', totalUpdated := totalUpdated s1 + 1\<rparr>))
                 else Normal (s1\<lparr>totalUnchanged := totalUnchanged s1 + 1\<rparr>))))"

text \<open>The two exits of \<open>dailySync\<close>; the \<open>catch\<close> does not write \<open>records_unchanged\<close>.\<close>

definition daily_success :: "nat \<Rightarrow> run_state \<Rightarrow> run_result" where
  "daily_success now s =
    Exited 0 (updateSyncLog (sdb s) (syncId s)
      [Status ''success'', Completed_at now, Records_fetched (totalFetched s),
       Records_added (totalAdded s), Records_updated (totalUpdated s),
       Records_unchanged (totalUnchanged s), Api_calls_made (apiCalls s)])"

definition daily_failed :: "nat \<Rightarrow> js_error \<Rightarrow> run_state \<Rightarrow> run_result" where
  "daily_failed now e s =
    Exited 1 (updateSyncLog (sdb s) (syncId s)
      [Status ''failed'', Completed_at now, Error_message (message e),
       Records_fetched (totalFetched s), Records_added (totalAdded s),
       Records_updated (totalUpdated s), Api_calls_made (apiCalls s)])"

text \<open>\<open>while (hasMore) { ... }\<close> inside the outer \<open>try\<close>, one call of the adapter per turn.\<close>

fun daily_loop :: "script \<Rightarrow> run_state \<Rightarrow> run_result" where
  "daily_loop [] s = Interrupted (sdb s)"
| "daily_loop ((now, Throws m) # rest) s = daily_failed now (ApiError m) s"
| "daily_loop ((now, Returns response) # rest) s =
    (let s1 = s\<lparr>apiCalls := apiCalls s + 1\<rparr> in
     case dot response ''results'' of
       Inl e \<Rightarrow> daily_failed now e s1
     | Inr results \<Rightarrow>
        if \<not> truthy results \<or> strict_eq (js_length results) (Num 0)
        then daily_success now s1
        else (case iterate results of
                Inl e \<Rightarrow> daily_failed now e s1
              | Inr apiLaunches \<Rightarrow>
                 (case for_of (daily_record now) apiLaunches s1 of
                    Abrupt e s2 \<Rightarrow> daily_failed now e s2
                  | Normal s2 \<Rightarrow>
                     let s3 = s2\<lparr>sdb := updateSyncLog (sdb s2) (syncId s2)
                                [Records_fetched (totalFetched s2), Records_added (totalAdded s2),
                                 Records_updated (totalUpdated s2),
                                 Records_unchanged (totalUnchanged s2),
                                 Api_calls_made (apiCalls s2), Last_api_offset (offset s2)]\<rparr>;
                         hasMore = (getp response ''next'' \<noteq> Null);
                         s4 = s3\<lparr>offset := offset s3 + BATCH_SIZE\<rparr>
                     in if hasMore then daily_loop rest s4 else daily_success now s4)))"

text \<open>\<open>dailySync\<close> always starts with \<open>createSyncLog('incremental')\<close>.\<close>

definition dailySync_start :: "nat \<Rightarrow> database \<Rightarrow> run_state" where
  "dailySync_start now db0 =
    (let (sid, db1) = createSyncLog now db0 ''incremental'' in
     \<lparr>syncId = sid, offset = 0, totalFetched = 0, totalAdded = 0, totalUpdated = 0,
      totalUnchanged = 0, apiCalls = 0, sdb = db1\<rparr>)"

definition dailySync :: "nat \<Rightarrow> script \<Rightarrow> database \<Rightarrow> run_result" where
  "dailySync now script db0 = daily_loop script (dailySync_start now db0)"

section \<open>Full load (initialLoad.js, in backend/src/config.js)\<close>

text \<open>
  \<open>SELECT ... FROM sync_log WHERE sync_type = 'full' AND status = 'running' ORDER BY
  started_at DESC LIMIT 1\<close>: the running full run that started last (the first such row
  among those that started at the same reading of the clock).
\<close>

fun latest :: "sync_run \<Rightarrow> sync_run list \<Rightarrow> sync_run" where
  "latest r [] = r"
| "latest r (x # xs) = latest (if started_at r < started_at x then x else r) xs"

definition incompleteSync :: "database \<Rightarrow> sync_run option" where
  "incompleteSync db =
    (case filter (\<lambda>r. sync_type r = ''full'' \<and> status r = ''running'') (sync_log db) of
       [] \<Rightarrow> None
     | r # rs \<Rightarrow> Some (latest r rs))"

text \<open>\<open>x || 0\<close> on a column that is a number or \<open>NULL\<close>\<close>

definition or0 :: "int option \<Rightarrow> int" where
  "or0 x = (case x of None \<Rightarrow> 0 | Some n \<Rightarrow> n)"

definition initialLoad_start :: "nat \<Rightarrow> database \<Rightarrow> run_state" where
  "initialLoad_start now db0 =
    (case incompleteSync db0 of
       Some r \<Rightarrow>
         \<lparr>syncId = run_id r, offset = or0 (last_api_offset r) + BATCH_SIZE,
          totalFetched = records_fetched r, totalAdded = records_added r, totalUpdated = 0,
          totalUnchanged = 0, apiCalls = api_calls_made r, sdb = db0\<rparr>
     | None \<Rightarrow>
         (let (sid, db1) = createSyncLog now db0 ''full'' in
          \<lparr>syncId = sid, offset = 0, totalFetched = 0, totalAdded = 0, totalUpdated = 0,
           totalUnchanged = 0, apiCalls = 0, sdb = db1\<rparr>))"

text \<open>
  The \<open>SELECT\<close> and the \<open>INSERT\<close> of \<open>createSyncLog\<close> are two statements, and
  the statements of other processes may come between them.  This is what \<open>initialLoad\<close>
  does with the answer of its \<open>SELECT\<close> on the database as it is by then.
\<close>

definition initialLoad_after_lookup :: "nat \<Rightarrow> sync_run option \<Rightarrow> database \<Rightarrow> run_state" where
  "initialLoad_after_lookup now answer db1 =
    (case answer of
       Some r \<Rightarrow>
         \<lparr>syncId = run_id r, offset = or0 (last_api_offset r) + BATCH_SIZE,
          totalFetched = records_fetched r, totalAdded = records_added r, totalUpdated = 0,
          totalUnchanged = 0, apiCalls = api_calls_made r, sdb = db1\<rparr>
     | None \<Rightarrow>
         (let (sid, db2) = createSyncLog now db1 ''full'' in
          \<lparr>syncId = sid, offset = 0, totalFetched = 0, totalAdded = 0, totalUpdated = 0,
           totalUnchanged = 0, apiCalls = 0, sdb = db2\<rparr>))"

text \<open>
  The per-record \<open>try\<close> of \<open>initialLoad\<close>: the write comes first, and
  \<open>result.changes > 0\<close> decides \<open>totalAdded\<close>.  The script has no variable for
  unchanged records; \<open>totalUnchanged\<close> is never touched.
\<close>

definition initial_record :: "nat \<Rightarrow> jsval \<Rightarrow> run_state \<Rightarrow> run_state completion" where
  "initial_record now apiLaunch s =
    (case mapLaunchToDb apiLaunch of
       Inl e \<Rightarrow> catch_record apiLaunch s
     | Inr launch \<Rightarrow>
        (case upsertLaunch now (sdb s) launch of
           Inl e \<Rightarrow> catch_record apiLaunch s
         | Inr (changes, db') \<Rightarrow>
            let s1 = s\<lparr>sdb := db', totalFetched := totalFetched s + 1\<rparr> in
            Normal (if changes > 0 then s1\<lparr>totalAdded := totalAdded s1 + 1\<rparr> else s1)))"

definition initial_success :: "nat \<Rightarrow> run_state \<Rightarrow> run_result" where
  "initial_success now s =
    Exited 0 (updateSyncLog (sdb s) (syncId s)
      [Status ''success'', Completed_at now, Records_fetched (totalFetched s),
       Records_added (totalAdded s), Records_updated (totalUpdated s),
       Api_calls_made (apiCalls s)])"

definition initial_failed :: "nat \<Rightarrow> js_error \<Rightarrow> run_state \<Rightarrow> run_result" where
  "initial_failed now e s =
    Exited 1 (updateSyncLog (sdb s) (syncId s)
      [Status ''failed'', Completed_at now, Error_message (message e),
       Records_fetched (totalFetched s), Records_added (totalAdded s),
       Api_calls_made (apiCalls s)])"

definition maxRetries :: nat where
  "maxRetries = 3"

text \<open>
  The outer \<open>while (hasMore)\<close> with the retry loop inside it: \<open>retries\<close> counts the
  throttled attempts at the current page and starts again at 0 for each page.
\<close>

fun initial_loop :: "nat \<Rightarrow> script \<Rightarrow> run_state \<Rightarrow> run_result" where
  "initial_loop retries [] s = Interrupted (sdb s)"
| "initial_loop retries ((now, Throws m) # rest) s =
    (if includes_js m ''429'' \<or> includes_js m ''throttled''
     then (if retries + 1 > maxRetries
           then initial_failed now
                  (ApiError ''Rate limit exceeded after 3 retries. Please try again later.'') s
           else initial_loop (retries + 1) rest s)
     else initial_failed now (ApiError m) s)"
| "initial_loop retries ((now, Returns response) # rest) s =
    (let s1 = s\<lparr>apiCalls := apiCalls s + 1\<rparr> in
     case dot response ''results'' of
       Inl e \<Rightarrow> initial_failed now e s1
     | Inr results \<Rightarrow>
        if \<not> truthy results \<or> strict_eq (js_length results) (Num 0)
        then initial_success now s1
        else (case iterate results of
                Inl e \<Rightarrow> initial_failed now e s1
              | Inr apiLaunches \<Rightarrow>
                 (case for_of (initial_record now) apiLaunches s1 of
                    Abrupt e s2 \<Rightarrow> initial_failed now e s2
                  | Normal s2 \<Rightarrow>
                     let s3 = s2\<lparr>sdb := updateSyncLog (sdb s2) (syncId s2)
                                [Records_fetched (totalFetched s2), Records_added (totalAdded s2),
                                 Records_updated (totalUpdated s2),
                                 Api_calls_made (apiCalls s2), Last_api_offset (offset s2)]\<rparr>;
                         hasMore = (getp response ''next'' \<noteq> Null);
                         s4 = s3\<lparr>offset := offset s3 + BATCH_SIZE\<rparr>
                     in if hasMore then initial_loop 0 rest s4 else initial_success now s4)))"

definition initialLoad :: "nat \<Rightarrow> script \<Rightarrow> database \<Rightarrow> run_result" where
  "initialLoad now script db0 = initial_loop 0 script (initialLoad_start now db0)"

section \<open>The query layer (\<open>queryLaunches\<close>)\<close>

text \<open>
  The filters object.  A field that is \<open>None\<close> is \<open>undefined\<close>; the text filters are
  strings, as the route passes them on from the query string.
\<close>

record filters =
  f_upcoming :: "bool option"
  f_past :: "bool option"
  f_provider :: "string option"
  f_country :: "string option"
  f_state :: "string option"
  f_location :: "string option"
  f_rocket :: "string option"
  f_status :: "string option"
  f_from :: "string option"
  f_to :: "string option"
  f_search :: "string option"
  f_limit :: "int option"
  f_offset :: "int option"
  f_sort :: "string option"
  f_order :: "string option"

text \<open>The default of a destructured parameter applies to \<open>undefined\<close> only.\<close>

definition default :: "'a \<Rightarrow> 'a option \<Rightarrow> 'a" where
  "default d x = (case x of None \<Rightarrow> d | Some v \<Rightarrow> v)"

text \<open>\<open>if (s)\<close> on a string or \<open>undefined\<close>; \<open>`${s}`\<close>\<close>

definition truthy_str :: "string option \<Rightarrow> bool" where
  "truthy_str x = (case x of None \<Rightarrow> False | Some s \<Rightarrow> s \<noteq> [])"

definition str_of :: "string option \<Rightarrow> string" where
  "str_of x = (case x of None \<Rightarrow> ''undefined'' | Some s \<Rightarrow> s)"

datatype param = Text string | Integer int

text \<open>\<open>if (c) { whereClauses.push(clause); params.push(...ps) }\<close>\<close>

definition push ::
  "bool \<Rightarrow> string \<Rightarrow> param list \<Rightarrow> string list \<times> param list \<Rightarrow> string list \<times> param list" where
  "push c clause ps acc = (if c then (fst acc @ [clause], snd acc @ ps) else acc)"

text \<open>
  \<open>whereClauses\<close> and \<open>params\<close> as \<open>queryLaunches\<close> of db/database.js builds them.
  The search clause is written on one line.
\<close>

definition build_where :: "filters \<Rightarrow> string list \<times> param list" where
  "build_where f =
    (let c0 = (if default False (f_upcoming f) then ([''net >= datetime('now')''], [])
               else if default False (f_past f) then ([''net < datetime('now')''], [])
               else ([], []));
         c1 = push (truthy_str (f_from f)) ''net >= ?''
                [Text (str_of (f_from f))] c0;
         c2 = push (truthy_str (f_to f)) ''net <= ?''
                [Text (str_of (f_to f))] c1;
         c3 = push (truthy_str (f_provider f)) ''provider_name LIKE ?''
                [Text (''%'' @ str_of (f_provider f) @ ''%'')] c2;
         c4 = push (truthy_str (f_country f)) ''location_country_code = ?''
                [Text (str_of (f_country f))] c3;
         c5 = push (truthy_str (f_state f)) ''location_name LIKE ?''
                [Text (''%, '' @ str_of (f_state f) @ '',%'')] c4;
         c6 = push (truthy_str (f_location f)) ''location_name LIKE ?''
                [Text (''%'' @ str_of (f_location f) @ ''%'')] c5;
         c7 = push (truthy_str (f_rocket f)) ''(rocket_name LIKE ? OR rocket_family LIKE ?)''
                [Text (''%'' @ str_of (f_rocket f) @ ''%''), Text (''%'' @ str_of (f_rocket f) @ ''%'')] c6;
         c8 = push (truthy_str (f_status f)) ''status_abbrev = ?''
                [Text (str_of (f_status f))] c7;
         c9 = push (truthy_str (f_search f)) ''( name LIKE ? OR mission_name LIKE ? OR mission_description LIKE ? OR provider_name LIKE ? )''
                [Text (''%'' @ str_of (f_search f) @ ''%''),
                 Text (''%'' @ str_of (f_search f) @ ''%''),
                 Text (''%'' @ str_of (f_search f) @ ''%''),
                 Text (''%'' @ str_of (f_search f) @ ''%'')] c8
     in c9)"

text \<open>The same in the other copy of the module (unnamed/part_004), which has no \<open>state\<close>.\<close>

definition build_where_part_004 :: "filters \<Rightarrow> string list \<times> param list" where
  "build_where_part_004 f =
    (let c0 = (if default False (f_upcoming f) then ([''net >= datetime('now')''], [])
               else if default False (f_past f) then ([''net < datetime('now')''], [])
               else ([], []));
         c1 = push (truthy_str (f_from f)) ''net >= ?''
                [Text (str_of (f_from f))] c0;
         c2 = push (truthy_str (f_to f)) ''net <= ?''
                [Text (str_of (f_to f))] c1;
         c3 = push (truthy_str (f_provider f)) ''provider_name LIKE ?''
                [Text (''%'' @ str_of (f_provider f) @ ''%'')] c2;
         c4 = push (truthy_str (f_country f)) ''location_country_code = ?''
                [Text (str_of (f_country f))] c3;
         c5 = push (truthy_str (f_location f)) ''location_name LIKE ?''
                [Text (''%'' @ str_of (f_location f) @ ''%'')] c4;
         c6 = push (truthy_str (f_rocket f)) ''(rocket_name LIKE ? OR rocket_family LIKE ?)''
                [Text (''%'' @ str_of (f_rocket f) @ ''%''), Text (''%'' @ str_of (f_rocket f) @ ''%'')] c5;
         c7 = push (truthy_str (f_status f)) ''status_abbrev = ?''
                [Text (str_of (f_status f))] c6;
         c8 = push (truthy_str (f_search f)) ''( name LIKE ? OR mission_name LIKE ? OR mission_description LIKE ? OR provider_name LIKE ? )''
                [Text (''%'' @ str_of (f_search f) @ ''%''),
                 Text (''%'' @ str_of (f_search f) @ ''%''),
                 Text (''%'' @ str_of (f_search f) @ ''%''),
                 Text (''%'' @ str_of (f_search f) @ ''%'')] c7
     in c8)"

fun join_str :: "string \<Rightarrow> string list \<Rightarrow> string" where
  "join_str sep [] = []"
| "join_str sep [x] = x"
| "join_str sep (x # y # ys) = x @ sep @ join_str sep (y # ys)"

definition whereClause_of :: "string list \<Rightarrow> string" where
  "whereClause_of whereClauses =
    (if length whereClauses > 0 then ''WHERE '' @ join_str '' AND '' whereClauses else [])"

definition validSortFields :: "string list" where
  "validSortFields = [''net'', ''provider_name'', ''location_name'', ''rocket_name'']"

definition toLowerCase :: "string \<Rightarrow> string" where
  "toLowerCase s = map lower_ascii s"

text \<open>
  SQLite itself is not part of the repository.  What it does with the text of a
  \<open>WHERE\<close> clause and with a sort column is a parameter: \<open>where_holds E w ps r\<close> says
  whether the row \<open>r\<close> of \<open>launches\<close> satisfies the clause \<open>w\<close> under the bound
  parameters \<open>ps\<close>, and \<open>precedes E c a b\<close> whether \<open>a\<close> may come before \<open>b\<close> in
  ascending order of the column \<open>c\<close>.  The shape of the two statements is modelled: the
  count is over \<open>launches\<close>, the page over the join with \<open>manual_payloads\<close> (the clauses
  name columns of \<open>launches\<close> only), then \<open>ORDER BY\<close>, then \<open>LIMIT ? OFFSET ?\<close>, where
  a negative limit means no limit and a negative offset means 0.
\<close>

record engine =
  where_holds :: "string \<Rightarrow> param list \<Rightarrow> row \<Rightarrow> bool"
  precedes :: "string \<Rightarrow> row \<Rightarrow> row \<Rightarrow> bool"

definition sql_where :: "engine \<Rightarrow> string \<Rightarrow> param list \<Rightarrow> row list \<Rightarrow> row list" where
  "sql_where E w ps rows = (if w = [] then rows else filter (where_holds E w ps) rows)"

fun insert_by :: "('a \<Rightarrow> 'a \<Rightarrow> bool) \<Rightarrow> 'a \<Rightarrow> 'a list \<Rightarrow> 'a list" where
  "insert_by le x [] = [x]"
| "insert_by le x (y # ys) = (if le x y then x # y # ys else y # insert_by le x ys)"

definition sql_order_by :: "engine \<Rightarrow> string \<Rightarrow> string \<Rightarrow> row list \<Rightarrow> row list" where
  "sql_order_by E sortField sortOrder rows =
    foldr (insert_by (if sortOrder = ''DESC'' then (\<lambda>a b. precedes E sortField b a)
                      else precedes E sortField)) rows []"

definition sql_limit_offset :: "int \<Rightarrow> int \<Rightarrow> 'a list \<Rightarrow> 'a list" where
  "sql_limit_offset lmt ofs rows =
    (let rest = drop (nat ofs) rows in if lmt < 0 then rest else take (nat lmt) rest)"

text \<open>\<open>countStmt.get(...params)\<close>\<close>

definition countStmt_get :: "engine \<Rightarrow> database \<Rightarrow> string \<Rightarrow> param list \<Rightarrow> int" where
  "countStmt_get E d w ps = int (length (sql_where E w ps (launches d)))"

text \<open>\<open>dataStmt.all(...params, limit, offset)\<close>\<close>

definition dataStmt_all ::
  "engine \<Rightarrow> database \<Rightarrow> string \<Rightarrow> string \<Rightarrow> string \<Rightarrow> param list \<Rightarrow> row list" where
  "dataStmt_all E d w sortField sortOrder ps =
    (case (ps ! (length ps - 2), ps ! (length ps - 1)) of
       (Integer lmt, Integer ofs) \<Rightarrow>
         sql_limit_offset lmt ofs
           (sql_order_by E sortField sortOrder
              (concat (map (left_join (manual_payloads d))
                           (sql_where E w (take (length ps - 2) ps) (launches d)))))
     | _ \<Rightarrow> [])"

text \<open>What follows the construction of the clauses; it is the same text in both copies.\<close>

definition run_query ::
  "engine \<Rightarrow> database \<Rightarrow> filters \<Rightarrow> string list \<times> param list \<Rightarrow> row list \<times> int" where
  "run_query E d f built =
    (let whereClauses = fst built; params = snd built;
         whereClause = whereClause_of whereClauses;
         sortField = (if default ''net'' (f_sort f) \<in> set validSortFields
                      then default ''net'' (f_sort f) else ''net'');
         sortOrder = (if toLowerCase (default ''asc'' (f_order f)) = ''desc'' then ''DESC'' else ''ASC'');
         total = countStmt_get E d whereClause params;
         rows = dataStmt_all E d whereClause sortField sortOrder
                  (params @ [Integer (default 20 (f_limit f)), Integer (default 0 (f_offset f))])
     in (rows, total))"

definition queryLaunches :: "engine \<Rightarrow> database \<Rightarrow> filters \<Rightarrow> row list \<times> int" where
  "queryLaunches E d f = run_query E d f (build_where f)"

definition queryLaunches_part_004 :: "engine \<Rightarrow> database \<Rightarrow> filters \<Rightarrow> row list \<times> int" where
  "queryLaunches_part_004 E d f = run_query E d f (build_where_part_004 f)"

section \<open>The route \<open>GET /api/launches\<close> (backend/src/routes/launches.js)\<close>

text \<open>
  \<open>parseInt(s)\<close> without a radix: leading white space, an optional sign, \<open>0x\<close> for
  hexadecimal, then the longest run of digits; \<open>None\<close> is \<open>NaN\<close>.  A parameter that is
  absent is \<open>undefined\<close>, which parses as the string \<open>"undefined"\<close>, that is \<open>NaN\<close>.
\<close>

definition is_space :: "char \<Rightarrow> bool" where
  "is_space c = ((of_char c :: nat) \<in> {9, 10, 11, 12, 13, 32})"

definition digit_of :: "char \<Rightarrow> nat option" where
  "digit_of c =
    (let n = (of_char c :: nat) in
     if 48 \<le> n \<and> n \<le> 57 then Some (n - 48)
     else if 97 \<le> n \<and> n \<le> 102 then Some (n - 87)
     else if 65 \<le> n \<and> n \<le> 70 then Some (n - 55)
     else None)"

definition is_digit :: "nat \<Rightarrow> char \<Rightarrow> bool" where
  "is_digit radix c = (case digit_of c of None \<Rightarrow> False | Some v \<Rightarrow> v < radix)"

definition digits_value :: "nat \<Rightarrow> string \<Rightarrow> nat" where
  "digits_value radix ds = foldl (\<lambda>acc c. acc * radix + the (digit_of c)) 0 ds"

definition parseInt :: "string option \<Rightarrow> int option" where
  "parseInt x =
    (let s1 = dropWhile is_space (str_of x);
         neg = (take 1 s1 = ''-'');
         s2 = (if take 1 s1 = ''-'' \<or> take 1 s1 = ''+'' then drop 1 s1 else s1);
         hex = (take 2 s2 = ''0x'' \<or> take 2 s2 = ''0X'');
         radix = (if hex then 16 else 10);
         s3 = (if hex then drop 2 s2 else s2);
         ds = takeWhile (is_digit radix) s3
     in if ds = [] then None
        else Some ((if neg then - 1 else 1) * int (digits_value radix ds)))"

text \<open>\<open>parseInt(s) || d\<close>: \<open>NaN\<close> and 0 are falsy.\<close>

definition parsed_or :: "int option \<Rightarrow> int \<Rightarrow> int" where
  "parsed_or x d = (case x of None \<Rightarrow> d | Some n \<Rightarrow> if n = 0 then d else n)"

text \<open>\<open>s || d\<close> on a string or \<open>undefined\<close>\<close>

definition str_or :: "string option \<Rightarrow> string \<Rightarrow> string" where
  "str_or x d = (if truthy_str x then str_of x else d)"

text \<open>\<open>req.query\<close>: each parameter is a string or absent.\<close>

record query =
  q_upcoming :: "string option"
  q_past :: "string option"
  q_provider :: "string option"
  q_country :: "string option"
  q_location :: "string option"
  q_rocket :: "string option"
  q_status :: "string option"
  q_from :: "string option"
  q_to :: "string option"
  q_search :: "string option"
  q_limit :: "string option"
  q_offset :: "string option"
  q_sort :: "string option"
  q_order :: "string option"

text \<open>The \<open>filters\<close> object of the handler, after \<open>// Validate limit\<close>.\<close>

definition route_filters :: "query \<Rightarrow> filters" where
  "route_filters q =
    (let lmt = parsed_or (parseInt (q_limit q)) 20 in
     \<lparr>f_upcoming = Some (q_upcoming q = Some ''true''),
      f_past = Some (q_past q = Some ''true''),
      f_provider = q_provider q,
      f_country = q_country q,
      f_state = None,
      f_location = q_location q,
      f_rocket = q_rocket q,
      f_status = q_status q,
      f_from = q_from q,
      f_to = q_to q,
      f_search = q_search q,
      f_limit = Some (if lmt > 100 then 100 else lmt),
      f_offset = Some (parsed_or (parseInt (q_offset q)) 0),
      f_sort = Some (str_or (q_sort q) ''net''),
      f_order = Some (str_or (q_order q) ''asc'')\<rparr>)"

definition formatLaunchForAPI :: "row \<Rightarrow> jsval" where
  "formatLaunchForAPI launch =
    Obj [
       (''id'', col launch ''id''),
       (''name'', col launch ''name''),
       (''slug'', col launch ''slug''),
       (''status'', Obj [
          (''id'', col launch ''status_id''),
          (''name'', col launch ''status_name''),
          (''abbrev'', col launch ''status_abbrev''),
          (''description'', col launch ''status_description'')]),
       (''net'', col launch ''net''),
       (''windowStart'', col launch ''window_start''),
       (''windowEnd'', col launch ''window_end''),
       (''rocket'', Obj [
          (''id'', col launch ''rocket_id''),
          (''name'', col launch ''rocket_name''),
          (''family'', col launch ''rocket_family''),
          (''variant'', col launch ''rocket_variant''),
          (''fullName'', col launch ''rocket_full_name'')]),
       (''provider'', Obj [
          (''id'', col launch ''provider_id''),
          (''name'', col launch ''provider_name''),
          (''abbrev'', col launch ''provider_abbrev''),
          (''type'', col launch ''provider_type''),
          (''countryCode'', col launch ''provider_country_code'')]),
       (''pad'', Obj [
          (''id'', col launch ''pad_id''),
          (''name'', col launch ''pad_name''),
          (''wikiUrl'', col launch ''pad_wiki_url''),
          (''mapUrl'', col launch ''pad_map_url''),
          (''latitude'', col launch ''pad_latitude''),
          (''longitude'', col launch ''pad_longitude'')]),
       (''location'', Obj [
          (''id'', col launch ''location_id''),
          (''name'', col launch ''location_name''),
          (''countryCode'', col launch ''location_country_code''),
          (''mapImage'', col launch ''location_map_image''),
          (''timezone'', col launch ''location_timezone'')]),
       (''mission'', Obj [
          (''id'', col launch ''mission_id''),
          (''name'', col launch ''mission_name''),
          (''description'', col launch ''mission_description''),
          (''type'', col launch ''mission_type''),
          (''orbit'', Obj [
             (''id'', col launch ''mission_orbit_id''),
             (''name'', col launch ''mission_orbit_name''),
             (''abbrev'', col launch ''mission_orbit_abbrev'')])]),
       (''imageUrl'', col launch ''image_url''),
       (''infographicUrl'', col launch ''infographic_url''),
       (''webcastLive'', Bool (strict_eq (col launch ''webcast_live'') (Num 1))),
       (''slugUrl'', col launch ''slug_url''),
       (''lastUpdated'', col launch ''last_updated''),
       (''importedAt'', col launch ''imported_at''),
       (''updatedAt'', col launch ''updated_at'')]"

record pagination =
  p_total :: int
  p_limit :: int
  p_offset :: int
  p_hasMore :: bool

text \<open>The body of the response: \<open>data.launches\<close> and \<open>data.pagination\<close>.\<close>

definition list_launches :: "engine \<Rightarrow> database \<Rightarrow> query \<Rightarrow> jsval list \<times> pagination" where
  "list_launches E d q =
    (let f = route_filters q;
         (rows, total) = queryLaunches E d f;
         formattedLaunches = map formatLaunchForAPI rows
     in (formattedLaunches,
         \<lparr>p_total = total, p_limit = the (f_limit f), p_offset = the (f_offset f),
          p_hasMore = (the (f_offset f) + the (f_limit f) < total)\<rparr>))"

section \<open>Tables and sample inputs\<close>

text \<open>
  The entries of the object literal of \<open>mapLaunchToDb\<close> as a table: the column, what
  is done with the value read (\<open>apiLaunch.id\<close> is copied, \<open>x || null\<close>,
  \<open>x ? 1 : 0\<close>) and the path of properties read from the payload.
\<close>

datatype treatment = Copy | Or_null | Flag

fun treat :: "treatment \<Rightarrow> jsval \<Rightarrow> jsval" where
  "treat Copy v = v"
| "treat Or_null v = (if truthy v then v else Null)"
| "treat Flag v = (if truthy v then Num 1 else Num 0)"

fun read_path :: "jsval \<Rightarrow> string list \<Rightarrow> jsval" where
  "read_path v [] = v"
| "read_path v (k # ks) = read_path (opt v k) ks"

definition mapped_fields :: "(string \<times> treatment \<times> string list) list" where
  "mapped_fields = [
    (''id'', Copy, [''id'']),
    (''name'', Or_null, [''name'']),
    (''slug'', Or_null, [''slug'']),
    (''status_id'', Or_null, [''status'', ''id'']),
    (''status_name'', Or_null, [''status'', ''name'']),
    (''status_abbrev'', Or_null, [''status'', ''abbrev'']),
    (''status_description'', Or_null, [''status'', ''description'']),
    (''net'', Or_null, [''net'']),
    (''window_start'', Or_null, [''window_start'']),
    (''window_end'', Or_null, [''window_end'']),
    (''rocket_id'', Or_null, [''rocket'', ''configuration'', ''id'']),
    (''rocket_name'', Or_null, [''rocket'', ''configuration'', ''name'']),
    (''rocket_family'', Or_null, [''rocket'', ''configuration'', ''family'']),
    (''rocket_variant'', Or_null, [''rocket'', ''configuration'', ''variant'']),
    (''rocket_full_name'', Or_null, [''rocket'', ''configuration'', ''full_name'']),
    (''provider_id'', Or_null, [''launch_service_provider'', ''id'']),
    (''provider_name'', Or_null, [''launch_service_provider'', ''name'']),
    (''provider_abbrev'', Or_null, [''launch_service_provider'', ''abbrev'']),
    (''provider_type'', Or_null, [''launch_service_provider'', ''type'']),
    (''provider_country_code'', Or_null, [''launch_service_provider'', ''country_code'']),
    (''pad_id'', Or_null, [''pad'', ''id'']),
    (''pad_name'', Or_null, [''pad'', ''name'']),
    (''pad_wiki_url'', Or_null, [''pad'', ''wiki_url'']),
    (''pad_map_url'', Or_null, [''pad'', ''map_url'']),
    (''pad_latitude'', Or_null, [''pad'', ''latitude'']),
    (''pad_longitude'', Or_null, [''pad'', ''longitude'']),
    (''location_id'', Or_null, [''pad'', ''location'', ''id'']),
    (''location_name'', Or_null, [''pad'', ''location'', ''name'']),
    (''location_country_code'', Or_null, [''pad'', ''location'', ''country_code'']),
    (''location_map_image'', Or_null, [''pad'', ''location'', ''map_image'']),
    (''location_timezone'', Or_null, [''pad'', ''location'', ''timezone_name'']),
    (''mission_id'', Or_null, [''mission'', ''id'']),
    (''mission_name'', Or_null, [''mission'', ''name'']),
    (''mission_description'', Or_null, [''mission'', ''description'']),
    (''mission_type'', Or_null, [''mission'', ''type'']),
    (''mission_orbit_id'', Or_null, [''mission'', ''orbit'', ''id'']),
    (''mission_orbit_name'', Or_null, [''mission'', ''orbit'', ''name'']),
    (''mission_orbit_abbrev'', Or_null, [''mission'', ''orbit'', ''abbrev'']),
    (''spacecraft_stage_id'', Or_null, [''rocket'', ''spacecraft_stage'', ''id'']),
    (''spacecraft_name'', Or_null, [''rocket'', ''spacecraft_stage'', ''spacecraft'', ''name'']),
    (''spacecraft_serial_number'', Or_null, [''rocket'', ''spacecraft_stage'', ''spacecraft'', ''serial_number'']),
    (''spacecraft_status'', Or_null, [''rocket'', ''spacecraft_stage'', ''spacecraft'', ''status'', ''name'']),
    (''spacecraft_description'', Or_null, [''rocket'', ''spacecraft_stage'', ''spacecraft'', ''description'']),
    (''spacecraft_destination'', Or_null, [''rocket'', ''spacecraft_stage'', ''destination'']),
    (''payload_count'', Or_null, [''rocket'', ''spacecraft_stage'', ''spacecraft_count'']),
    (''payload_total_mass_kg'', Or_null, [''rocket'', ''spacecraft_stage'', ''spacecraft'', ''spacecraft_config'', ''payload_capacity'']),
    (''image_url'', Or_null, [''image'']),
    (''infographic_url'', Or_null, [''infographic'']),
    (''webcast_live'', Flag, [''webcast_live'']),
    (''slug_url'', Or_null, [''url'']),
    (''last_updated'', Or_null, [''last_updated''])]"

text \<open>\<open>mapLaunchToDb(apiLaunch)[k]\<close>\<close>

definition mapped_field :: "jsval \<Rightarrow> string \<Rightarrow> js_error + jsval" where
  "mapped_field apiLaunch k =
    (case mapLaunchToDb apiLaunch of Inl e \<Rightarrow> Inl e | Inr m \<Rightarrow> Inr (getp m k))"

text \<open>A payload whose name is the empty string and whose pad lies on the equator.\<close>

definition equator_payload :: jsval where
  "equator_payload =
    Obj [(''id'', Str ''e3df2ecd''), (''name'', Str []),
         (''pad'', Obj [(''id'', Num 7), (''latitude'', Num 0), (''longitude'', Num (- 154))]),
         (''webcast_live'', Bool False), (''last_updated'', Str ''2025-01-25T12:00:00Z'')]"

text \<open>A request without parameters, a filters object without fields.\<close>

definition no_query :: query where
  "no_query = \<lparr>q_upcoming = None, q_past = None, q_provider = None, q_country = None,
     q_location = None, q_rocket = None, q_status = None, q_from = None, q_to = None,
     q_search = None, q_limit = None, q_offset = None, q_sort = None, q_order = None\<rparr>"

definition no_filters :: filters where
  "no_filters = \<lparr>f_upcoming = None, f_past = None, f_provider = None, f_country = None,
     f_state = None, f_location = None, f_rocket = None, f_status = None, f_from = None,
     f_to = None, f_search = None, f_limit = None, f_offset = None, f_sort = None,
     f_order = None\<rparr>"

text \<open>An engine for the examples (no example has a \<open>WHERE\<close> clause that decides anything).\<close>

definition any_engine :: engine where
  "any_engine = \<lparr>where_holds = (\<lambda>w ps r. True), precedes = (\<lambda>c a b. True)\<rparr>"

definition three_launches :: database where
  "three_launches =
    \<lparr>launches = [[(''id'', Str ''a''), (''name'', Str ''A'')],
                  [(''id'', Str ''b''), (''name'', Str ''B'')],
                  [(''id'', Str ''c''), (''name'', Str ''C'')]],
     manual_payloads = [], sync_log = []\<rparr>"

text \<open>A database without rows, and two payloads for the same launch, the second changed later.\<close>

definition empty_db :: database where
  "empty_db = \<lparr>launches = [], manual_payloads = [], sync_log = []\<rparr>"

definition sample_payload :: jsval where
  "sample_payload =
    Obj [(''id'', Str ''e3df2ecd''), (''name'', Str ''Falcon 9 Block 5 | Starlink Group 6-14''),
         (''status'', Obj [(''id'', Num 1), (''abbrev'', Str ''Go'')]),
         (''net'', Str ''2025-01-28T14:30:00Z''),
         (''last_updated'', Str ''2025-01-25T12:00:00Z''), (''webcast_live'', Bool False)]"

definition later_payload :: jsval where
  "later_payload =
    Obj [(''id'', Str ''e3df2ecd''), (''name'', Str ''Falcon 9 Block 5 | Starlink Group 6-14''),
         (''status'', Obj [(''id'', Num 3), (''abbrev'', Str ''Success'')]),
         (''net'', Str ''2025-01-28T14:30:00Z''),
         (''last_updated'', Str ''2025-01-28T15:10:00Z''), (''webcast_live'', Bool False)]"

text \<open>A payload without a name: the store rejects its record.\<close>

definition nameless_payload :: jsval where
  "nameless_payload = Obj [(''id'', Str ''0a1b2c3d''), (''last_updated'', Str ''2025-01-25T12:00:00Z'')]"

text \<open>The local variables at the start of a run that has created its journal row.\<close>

definition fresh_state :: "database \<Rightarrow> run_state" where
  "fresh_state d =
    \<lparr>syncId = 1, offset = 0, totalFetched = 0, totalAdded = 0, totalUpdated = 0,
     totalUnchanged = 0, apiCalls = 0, sdb = d\<rparr>"

text \<open>\<open>projr\<close> of a result that is not an error: the mapped record, the database written.\<close>

definition mapped :: "jsval \<Rightarrow> jsval" where
  "mapped apiLaunch = projr (mapLaunchToDb apiLaunch)"

definition written :: "nat \<Rightarrow> database \<Rightarrow> jsval \<Rightarrow> database" where
  "written now d launch = snd (projr (upsertLaunch now d launch))"


text \<open>The store after the first sample payload was written at time 1, and the row found there.\<close>

definition stored_once :: database where
  "stored_once = written 1 empty_db (mapped sample_payload)"

definition found :: "database \<Rightarrow> jsval \<Rightarrow> row" where
  "found d apiLaunch = the (projr (getLaunchById d (getp apiLaunch ''id'')))"

text \<open>
  Two payloads whose \<open>last_updated\<close> is a text that reads as a number, and the store
  after each was written at time 1.
\<close>

definition digits_payload :: jsval where
  "digits_payload =
    Obj [(''id'', Str ''7f3a9c1e''), (''name'', Str ''Electron | The Owl Spreads Its Wings''),
         (''last_updated'', Str ''20250125'')]"

definition stored_digits :: database where
  "stored_digits = written 1 empty_db (mapped digits_payload)"



text \<open>The affinities of the columns of the \<open>INSERT\<close>.\<close>

definition launch_affinities :: "(string \<times> affinity) list" where
  "launch_affinities = map (\<lambda>c. (c, column_affinity c)) launch_columns"


text \<open>
  The row is stored under the id: its \<open>id\<close> equals the id as text (as the column holds
  it, and as the comparison of \<open>getLaunchById\<close> takes it).
\<close>

definition has_id :: "jsval \<Rightarrow> row \<Rightarrow> bool" where
  "has_id idv r = sql_eq (col r ''id'') (apply_affinity Text_affinity (bindv idv))"

text \<open>The row that \<open>upsertLaunch\<close> inserts for a record.\<close>

definition new_row :: "nat \<Rightarrow> jsval \<Rightarrow> row" where
  "new_row now m =
    bound_row m @ [(''imported_at'', Num (of_nat now)), (''updated_at'', Num (of_nat now))]"

section \<open>States of the journal\<close>

text \<open>The state a statement leaves, however it completes.\<close>

fun final :: "'s completion \<Rightarrow> 's" where
  "final (Normal s) = s"
| "final (Abrupt e s) = s"

text \<open>The runs of the journal that are running, and those of them that are full loads.\<close>

definition running :: "database \<Rightarrow> sync_run list" where
  "running d = filter (\<lambda>r. status r = ''running'') (sync_log d)"

definition running_full :: "database \<Rightarrow> sync_run list" where
  "running_full d = filter (\<lambda>r. sync_type r = ''full'' \<and> status r = ''running'') (sync_log d)"

text \<open>
  The states the two scripts can leave behind, one invocation after the other, from a
  journal without rows.  An invocation may run to its exit or be interrupted (the script
  of the adapter is used up); whatever else writes to the database leaves the journal as
  it is.
\<close>

inductive reachable :: "database \<Rightarrow> bool" where
  start: "sync_log d = [] \<Longrightarrow> reachable d"
| daily: "reachable d \<Longrightarrow> reachable (db_of (dailySync now script d))"
| initial: "reachable d \<Longrightarrow> reachable (db_of (initialLoad now script d))"
| other: "reachable d \<Longrightarrow> sync_log d' = sync_log d \<Longrightarrow> reachable d'"

text \<open>
  The states that any number of invocations can reach when their statements interleave,
  as long as no statement of another process comes between the \<open>SELECT\<close> of an
  \<open>initialLoad\<close> and the \<open>INSERT\<close> that follows it.  Apart from the two starts, a
  statement of the scripts writes to the journal by \<open>updateSyncLog\<close>, with the status
  \<open>'success'\<close>, \<open>'failed'\<close> or none, or leaves the journal as it is.
\<close>

inductive interleaved :: "database \<Rightarrow> bool" where
  no_runs: "sync_log d = [] \<Longrightarrow> interleaved d"
| full_start: "interleaved d \<Longrightarrow> interleaved (sdb (initialLoad_start now d))"
| incremental_start: "interleaved d \<Longrightarrow> interleaved (sdb (dailySync_start now d))"
| journal_write:
    "interleaved d \<Longrightarrow> \<forall>st. Status st \<in> set updates \<longrightarrow> st = ''success'' \<or> st = ''failed'' \<Longrightarrow>
     interleaved (updateSyncLog d sid updates)"
| other_write: "interleaved d \<Longrightarrow> sync_log d' = sync_log d \<Longrightarrow> interleaved d'"




text \<open>
  What the processing of records leaves alone in \<open>dailySync\<close> and in \<open>initialLoad\<close>:
  the journal, the id of the run, the offset and the count of calls; and what it keeps
  true of the counters.
\<close>

definition daily_step_ok :: "run_state \<Rightarrow> run_state \<Rightarrow> bool" where
  "daily_step_ok s s' =
    (sync_log (sdb s') = sync_log (sdb s) \<and> syncId s' = syncId s \<and> offset s' = offset s \<and>
     apiCalls s' = apiCalls s \<and> totalUnchanged s \<le> totalUnchanged s' \<and>
     (totalAdded s + totalUpdated s + totalUnchanged s \<le> totalFetched s \<longrightarrow>
      totalAdded s' + totalUpdated s' + totalUnchanged s' \<le> totalFetched s'))"

definition initial_step_ok :: "run_state \<Rightarrow> run_state \<Rightarrow> bool" where
  "initial_step_ok s s' =
    (sync_log (sdb s') = sync_log (sdb s) \<and> syncId s' = syncId s \<and> offset s' = offset s \<and>
     apiCalls s' = apiCalls s \<and> totalUpdated s' = totalUpdated s \<and>
     totalUnchanged s' = totalUnchanged s \<and>
     (totalFetched s = totalAdded s \<longrightarrow> totalFetched s' = totalAdded s'))"



text \<open>
  Sample runs.  A full load that is interrupted before the adapter answers, and an
  incremental sync started after it; a response with one page that holds the sample
  payload, one that holds the payload without a name, and one without \<open>results\<close>.
\<close>

definition interrupted_full :: database where
  "interrupted_full = db_of (initialLoad 1 [] empty_db)"

definition two_running :: database where
  "two_running = db_of (dailySync 5 [] interrupted_full)"







text \<open>
  Two full loads started together on the empty journal: both read the journal before
  either inserts its row.
\<close>

definition racing_loads :: database where
  "racing_loads =
    sdb (initialLoad_after_lookup 2 (incompleteSync empty_db)
          (sdb (initialLoad_after_lookup 1 (incompleteSync empty_db) empty_db)))"

text \<open>The row that \<open>createSyncLog\<close> inserts.\<close>

definition new_run :: "nat \<Rightarrow> sync_run list \<Rightarrow> string \<Rightarrow> sync_run" where
  "new_run now journal syncType =
    \<lparr>run_id = next_run_id journal, sync_type = syncType, started_at = now, completed_at = None,
     records_fetched = 0, records_added = 0, records_updated = 0, records_unchanged = 0,
     status = ''running'', error_message = None, api_calls_made = 0, last_api_offset = None\<rparr>"

section \<open>Outcomes of a call of the adapter, and of a run\<close>

text \<open>The error is a throttling error for \<open>initialLoad\<close>.\<close>

definition throttled :: "string \<Rightarrow> bool" where
  "throttled m = (includes_js m ''429'' \<or> includes_js m ''throttled'')"

fun throttled_outcome :: "nat \<times> fetch_outcome \<Rightarrow> bool" where
  "throttled_outcome (now, Throws m) = throttled m"
| "throttled_outcome (now, Returns response) = False"



text \<open>The run has exited with the code, and the rows of the run \<open>sid\<close> bear the status.\<close>

definition ends_with :: "run_result \<Rightarrow> int \<Rightarrow> string \<Rightarrow> int \<Rightarrow> bool" where
  "ends_with res code st sid =
    (case res of
       Exited c d \<Rightarrow> c = code \<and> (\<forall>r \<in> set (sync_log d). run_id r = sid \<longrightarrow> status r = st)
     | Interrupted d \<Rightarrow> False)"


text \<open>
  More sample runs.  A page that is not the last; an incremental sync interrupted
  after its first page; a full load throttled four times after its first page.
\<close>

definition more_page :: "jsval list \<Rightarrow> jsval" where
  "more_page rs =
    Obj [(''count'', Num 7000), (''next'', Str ''https://ll.thespacedevs.com/2.2.0/launch/?offset=100''),
         (''results'', Arr rs)]"

definition too_many :: fetch_outcome where
  "too_many = Throws ''API request failed: 429 Too Many Requests''"

definition interrupted_daily :: database where
  "interrupted_daily = db_of (dailySync 1 [(2, Returns (more_page [sample_payload]))] empty_db)"

definition throttled_load :: database where
  "throttled_load =
    db_of (initialLoad 1
      [(2, Returns (more_page [sample_payload])),
       (3, too_many), (4, too_many), (5, too_many), (6, too_many)] empty_db)"

text \<open>The type, the status and the checkpoint of a row.\<close>

definition checkpoint :: "sync_run \<Rightarrow> string \<times> string \<times> int option" where
  "checkpoint r = (sync_type r, status r, last_api_offset r)"

text \<open>A full load interrupted after its first page, and what the adapter does when it
  throttles four calls in a row.\<close>

definition interrupted_load :: database where
  "interrupted_load = db_of (initialLoad 1 [(2, Returns (more_page [sample_payload]))] empty_db)"

definition four_throttles :: script where
  "four_throttles = [(3, too_many), (4, too_many), (5, too_many), (6, too_many)]"

section \<open>Records that the store accepts\<close>







section \<open>Journal writes that the store refuses\<close>




















section \<open>The mapping step: properties\<close>

lemma opt_getp: "\<not> nullish a \<Longrightarrow> opt a k = getp a k"
  by (simp add: opt_def)

lemma mapLaunchToDb_table:
  "\<not> nullish a \<Longrightarrow>
   mapLaunchToDb a = Inr (Obj (map (\<lambda>(k, t, p). (k, treat t (read_path a p))) mapped_fields))"
  by (simp add: mapLaunchToDb_def mapped_fields_def opt_getp or_js_def)

lemma distinct_mapped_fields: "distinct (map fst mapped_fields)"
  by (simp add: mapped_fields_def)

lemma map_of_table:
  "distinct (map fst xs) \<Longrightarrow> (k, t, p) \<in> set xs \<Longrightarrow>
   map_of (map (\<lambda>(k, t, p). (k, f t p)) xs) k = Some (f t p)"
  by (induction xs) (auto simp: rev_image_eqI)

text \<open>
  C3, as stated, fails: a payload whose pad has latitude 0 and whose name is the empty
  string is mapped to a record whose \<open>pad_latitude\<close> and \<open>name\<close> are \<open>null\<close>: the
  present falsy values are replaced.
\<close>

theorem mapLaunchToDb_replaces_falsy:
  "read_path equator_payload [''pad'', ''latitude''] = Num 0 \<and>
   mapped_field equator_payload ''pad_latitude'' = Inr Null \<and>
   read_path equator_payload [''name''] = Str [] \<and>
   mapped_field equator_payload ''name'' = Inr Null"
  by (simp add: equator_payload_def mapped_field_def mapLaunchToDb_def nullish_def opt_def
      or_js_def)

text \<open>
  C3, amended: for every payload that is not \<open>null\<close>, each field of the mapped record is
  the value read along its path, treated as the entry says: \<open>id\<close> is copied as read;
  \<open>webcast_live\<close> is 1 when the value read is truthy and 0 otherwise; every other field
  is the value read when that is truthy and \<open>null\<close> when it is absent or falsy
  (\<open>undefined\<close>, \<open>null\<close>, \<open>false\<close>, 0, the empty string).
\<close>

theorem mapLaunchToDb_field:
  assumes "\<not> nullish a" and "(k, t, p) \<in> set mapped_fields"
  shows "mapped_field a k = Inr (treat t (read_path a p))"
  using map_of_table [OF distinct_mapped_fields assms(2), of "\<lambda>t p. treat t (read_path a p)"]
  by (simp add: mapped_field_def mapLaunchToDb_table [OF assms(1)])

theorem mapLaunchToDb_field_witness:
  "\<not> nullish equator_payload \<and>
   (''pad_longitude'', Or_null, [''pad'', ''longitude'']) \<in> set mapped_fields \<and>
   mapped_field equator_payload ''pad_longitude'' = Inr (Num (- 154))"
proof -
  have a: "\<not> nullish equator_payload"
    by (simp add: equator_payload_def nullish_def)
  have b: "(''pad_longitude'', Or_null, [''pad'', ''longitude'']) \<in> set mapped_fields"
    by (simp add: mapped_fields_def)
  have "read_path equator_payload [''pad'', ''longitude''] = Num (- 154)"
    by (simp add: equator_payload_def opt_def nullish_def)
  with mapLaunchToDb_field [OF a b] a b show ?thesis by simp
qed

section \<open>The route and the query layer: properties\<close>

text \<open>
  C8, as stated, fails: \<open>limit=-5&offset=-3\<close> reaches \<open>queryLaunches\<close> as limit
  \<open>-5\<close> and offset \<open>-3\<close>.
\<close>

theorem route_filters_negative:
  "f_limit (route_filters (no_query\<lparr>q_limit := Some ''-5'', q_offset := Some ''-3''\<rparr>)) = Some (- 5) \<and>
   f_offset (route_filters (no_query\<lparr>q_limit := Some ''-5'', q_offset := Some ''-3''\<rparr>)) = Some (- 3)"
  by (simp add: route_filters_def no_query_def parsed_or_def parseInt_def str_of_def
      is_space_def is_digit_def digit_of_def digits_value_def)

text \<open>
  C8, amended: the limit passed to the store query is at most 100; it is 20 when the
  parameter is not numeric or parses to 0, 100 when it parses to more than 100, and the
  parsed integer otherwise, so it is below 1 exactly when the parameter parses to a
  negative integer.  The offset is the parsed integer, 0 when the parameter is not
  numeric, so it is negative exactly when the parameter parses to a negative integer.
\<close>

theorem route_filters_pagination:
  "f_limit (route_filters q) =
     Some (case parseInt (q_limit q) of None \<Rightarrow> 20
           | Some n \<Rightarrow> if n = 0 then 20 else if 100 < n then 100 else n) \<and>
   f_offset (route_filters q) = Some (case parseInt (q_offset q) of None \<Rightarrow> 0 | Some n \<Rightarrow> n) \<and>
   the (f_limit (route_filters q)) \<le> 100 \<and>
   (the (f_limit (route_filters q)) < 1 \<longleftrightarrow> (\<exists>n. parseInt (q_limit q) = Some n \<and> n < 0)) \<and>
   (the (f_offset (route_filters q)) < 0 \<longleftrightarrow> (\<exists>n. parseInt (q_offset q) = Some n \<and> n < 0))"
  by (auto simp add: route_filters_def parsed_or_def Let_def split: option.splits)

lemma parseInt_250: "parseInt (Some ''250'') = Some 250"
  by (simp add: parseInt_def str_of_def is_space_def is_digit_def digit_of_def digits_value_def)

theorem route_filters_pagination_witness:
  "f_limit (route_filters (no_query\<lparr>q_limit := Some ''250''\<rparr>)) = Some 100 \<and>
   f_offset (route_filters (no_query\<lparr>q_limit := Some ''250''\<rparr>)) = Some 0"
proof -
  have "parseInt (q_offset (no_query\<lparr>q_limit := Some ''250''\<rparr>)) = None"
    by (simp add: no_query_def parseInt_def str_of_def is_space_def is_digit_def digit_of_def)
  with route_filters_pagination [of "no_query\<lparr>q_limit := Some ''250''\<rparr>"] parseInt_250
  show ?thesis by simp
qed

lemma length_insert_by: "length (insert_by le x xs) = Suc (length xs)"
  by (induction xs) auto

lemma length_sql_order_by: "length (sql_order_by E c ord rows) = length rows"
  unfolding sql_order_by_def by (induction rows) (auto simp: length_insert_by)

lemma left_join_nonempty: "length (left_join mps r) \<ge> 1"
  by (auto simp: left_join_def split: list.splits)

lemma length_concat_left_join: "length rows \<le> length (concat (map (left_join mps) rows))"
proof (induction rows)
  case Nil
  then show ?case by simp
next
  case (Cons r rows)
  then show ?case using left_join_nonempty [of mps r] by simp
qed

lemma dataStmt_all_params:
  "dataStmt_all E d w c ord (ps @ [Integer l, Integer ofs]) =
     sql_limit_offset l ofs (sql_order_by E c ord
        (concat (map (left_join (manual_payloads d)) (sql_where E w ps (launches d)))))"
  by (simp add: dataStmt_all_def nth_append)

lemma hasMore_arith:
  assumes "0 \<le> l" "0 \<le> ofs" "tot \<le> int (length rows)"
  shows "(ofs + l < tot) = (ofs + int (length (sql_limit_offset l ofs rows)) < tot)"
  using assms by (auto simp: sql_limit_offset_def Let_def min_def)

text \<open>
  C9, as stated, fails: with three launches stored and \<open>limit=-5\<close> the page holds all
  three records, and the flag is \<open>0 + (-5) < 3\<close>, which is true, where
  \<open>offset + len(page) < total\<close> is \<open>3 < 3\<close>.
\<close>

theorem hasMore_negative_limit:
  "p_hasMore (snd (list_launches any_engine three_launches (no_query\<lparr>q_limit := Some ''-5''\<rparr>))) \<noteq>
    (p_offset (snd (list_launches any_engine three_launches (no_query\<lparr>q_limit := Some ''-5''\<rparr>)))
      + int (length (fst (list_launches any_engine three_launches (no_query\<lparr>q_limit := Some ''-5''\<rparr>))))
     < p_total (snd (list_launches any_engine three_launches (no_query\<lparr>q_limit := Some ''-5''\<rparr>))))"
  by code_simp

text \<open>
  C9, amended: when the limit and the offset that the route passes on are not negative,
  the flag \<open>offset + limit < total\<close> that the route computes equals
  \<open>offset + len(page) < total\<close>, for the page and the total of the same call of
  \<open>queryLaunches\<close> on one state of the store.
\<close>

theorem hasMore_page_length:
  assumes "0 \<le> the (f_limit (route_filters q))" and "0 \<le> the (f_offset (route_filters q))"
  shows "p_hasMore (snd (list_launches E d q)) =
         (p_offset (snd (list_launches E d q)) + int (length (fst (list_launches E d q)))
            < p_total (snd (list_launches E d q)))"
proof -
  obtain l ofs where lo: "f_limit (route_filters q) = Some l" "f_offset (route_filters q) = Some ofs"
    by (simp add: route_filters_def Let_def)
  have l0: "0 \<le> l" and o0: "0 \<le> ofs" using assms lo by simp_all
  let ?w = "whereClause_of (fst (build_where (route_filters q)))"
  let ?ps = "snd (build_where (route_filters q))"
  let ?matching = "sql_where E ?w ?ps (launches d)"
  let ?joined = "concat (map (left_join (manual_payloads d)) ?matching)"
  obtain c ord where q: "queryLaunches E d (route_filters q) =
      (sql_limit_offset l ofs (sql_order_by E c ord ?joined), int (length ?matching))"
    by (simp add: queryLaunches_def run_query_def Let_def dataStmt_all_params countStmt_get_def
        lo default_def)
  have "int (length ?matching) \<le> int (length (sql_order_by E c ord ?joined))"
    using length_concat_left_join [of ?matching "manual_payloads d"]
    by (simp add: length_sql_order_by)
  from hasMore_arith [OF l0 o0 this] show ?thesis
    by (simp add: list_launches_def Let_def q lo)
qed

lemma route_filters_limit_2:
  "f_limit (route_filters (no_query\<lparr>q_limit := Some ''2''\<rparr>)) = Some 2 \<and>
   f_offset (route_filters (no_query\<lparr>q_limit := Some ''2''\<rparr>)) = Some 0"
  by (simp add: route_filters_def no_query_def parsed_or_def parseInt_def str_of_def
      is_space_def is_digit_def digit_of_def digits_value_def)

theorem hasMore_page_length_witness:
  "0 \<le> the (f_limit (route_filters (no_query\<lparr>q_limit := Some ''2''\<rparr>))) \<and>
   0 \<le> the (f_offset (route_filters (no_query\<lparr>q_limit := Some ''2''\<rparr>))) \<and>
   p_hasMore (snd (list_launches any_engine three_launches (no_query\<lparr>q_limit := Some ''2''\<rparr>))) =
     (p_offset (snd (list_launches any_engine three_launches (no_query\<lparr>q_limit := Some ''2''\<rparr>)))
        + int (length (fst (list_launches any_engine three_launches (no_query\<lparr>q_limit := Some ''2''\<rparr>))))
      < p_total (snd (list_launches any_engine three_launches (no_query\<lparr>q_limit := Some ''2''\<rparr>))))"
proof -
  have a: "0 \<le> the (f_limit (route_filters (no_query\<lparr>q_limit := Some ''2''\<rparr>)))"
    and b: "0 \<le> the (f_offset (route_filters (no_query\<lparr>q_limit := Some ''2''\<rparr>)))"
    using route_filters_limit_2 by simp_all
  from hasMore_page_length [OF a b, of any_engine three_launches] a b show ?thesis by simp
qed

text \<open>
  C10: when the \<open>state\<close> filter is unset (or the empty string), \<open>queryLaunches\<close> of
  db/database.js and the copy in unnamed/part_004 build the same clauses and
  parameters, and return the same rows and the same total on every state of the store;
  the sort and the pagination are the same text in both.
\<close>

theorem queryLaunches_copies_agree:
  "\<not> truthy_str (f_state f) \<Longrightarrow>
   build_where f = build_where_part_004 f \<and>
   queryLaunches E d f = queryLaunches_part_004 E d f"
  by (simp add: queryLaunches_def queryLaunches_part_004_def build_where_def
      build_where_part_004_def push_def)

theorem queryLaunches_copies_agree_witness:
  "\<not> truthy_str (f_state (no_filters\<lparr>f_provider := Some ''SpaceX''\<rparr>)) \<and>
   build_where (no_filters\<lparr>f_provider := Some ''SpaceX''\<rparr>) =
     ([''provider_name LIKE ?''], [Text ''%SpaceX%'']) \<and>
   queryLaunches any_engine three_launches (no_filters\<lparr>f_provider := Some ''SpaceX''\<rparr>)
     = queryLaunches_part_004 any_engine three_launches (no_filters\<lparr>f_provider := Some ''SpaceX''\<rparr>)"
  using queryLaunches_copies_agree
    [of "no_filters\<lparr>f_provider := Some ''SpaceX''\<rparr>" any_engine three_launches]
  by (simp add: no_filters_def truthy_str_def build_where_part_004_def push_def default_def
      str_of_def)
section \<open>The store and the reconciliation step: properties\<close>

lemma col_map_columns: "c \<in> set cs \<Longrightarrow> col (map (\<lambda>c. (c, g c)) cs) c = g c"
  by (induction cs) (auto simp: col_def)

lemma col_map_columns_notin: "c \<notin> set cs \<Longrightarrow> col (map (\<lambda>c. (c, g c)) cs) c = Null"
  by (induction cs) (auto simp: col_def)

lemma launch_affinities_code [code]:
  "launch_affinities =
     [(''id'', Text_affinity), (''name'', Text_affinity), (''slug'', Text_affinity),
      (''status_id'', Integer_affinity), (''status_name'', Text_affinity),
      (''status_abbrev'', Text_affinity), (''status_description'', Text_affinity),
      (''net'', Numeric_affinity), (''window_start'', Numeric_affinity),
      (''window_end'', Numeric_affinity), (''rocket_id'', Integer_affinity),
      (''rocket_name'', Text_affinity), (''rocket_family'', Text_affinity),
      (''rocket_variant'', Text_affinity), (''rocket_full_name'', Text_affinity),
      (''provider_id'', Integer_affinity), (''provider_name'', Text_affinity),
      (''provider_abbrev'', Text_affinity), (''provider_type'', Text_affinity),
      (''provider_country_code'', Text_affinity), (''pad_id'', Integer_affinity),
      (''pad_name'', Text_affinity), (''pad_wiki_url'', Text_affinity),
      (''pad_map_url'', Text_affinity), (''pad_latitude'', Real_affinity),
      (''pad_longitude'', Real_affinity), (''location_id'', Integer_affinity),
      (''location_name'', Text_affinity), (''location_country_code'', Text_affinity),
      (''location_map_image'', Text_affinity), (''location_timezone'', Text_affinity),
      (''mission_id'', Integer_affinity), (''mission_name'', Text_affinity),
      (''mission_description'', Text_affinity), (''mission_type'', Text_affinity),
      (''mission_orbit_id'', Integer_affinity), (''mission_orbit_name'', Text_affinity),
      (''mission_orbit_abbrev'', Text_affinity), (''spacecraft_stage_id'', Integer_affinity),
      (''spacecraft_name'', Text_affinity), (''spacecraft_serial_number'', Text_affinity),
      (''spacecraft_status'', Text_affinity), (''spacecraft_description'', Text_affinity),
      (''spacecraft_destination'', Text_affinity), (''payload_count'', Integer_affinity),
      (''payload_total_mass_kg'', Real_affinity), (''image_url'', Text_affinity),
      (''infographic_url'', Text_affinity), (''webcast_live'', Integer_affinity),
      (''slug_url'', Text_affinity), (''last_updated'', Numeric_affinity)]"
  by code_simp

lemma bound_row_code [code]:
  "bound_row launch =
     map (\<lambda>(c, a). (c, apply_affinity a (bindv (getp launch c)))) launch_affinities"
  by (simp add: bound_row_def launch_affinities_def store_value_def comp_def)

lemma col_bound_row: "c \<in> set launch_columns \<Longrightarrow> col (bound_row m) c = store_value c (getp m c)"
  by (simp add: bound_row_def col_map_columns)

lemma id_in_launch_columns: "''id'' \<in> set launch_columns"
  by (simp add: launch_columns_def)

lemma launch_columns_in_table: "c \<in> set launch_columns \<Longrightarrow> c \<in> set table_columns"
  by (simp add: table_columns_def)

lemma launch_columns_not_stamps:
  "c \<in> set launch_columns \<Longrightarrow> c \<noteq> ''updated_at'' \<and> c \<noteq> ''imported_at''"
  by (auto simp: launch_columns_def)

lemma col_on_conflict_update:
  "c \<in> set table_columns \<Longrightarrow>
   col (on_conflict_update now new r) c =
     (if c = ''updated_at'' then Num (of_nat now)
      else if c = ''id'' \<or> c = ''imported_at'' then col r c else col new c)"
  unfolding on_conflict_update_def by (simp add: col_map_columns)


lemma mapLaunchToDb_id: "mapLaunchToDb a = Inr m \<Longrightarrow> getp m ''id'' = getp a ''id''"
  by (auto simp: mapLaunchToDb_def split: if_splits)

lemma column_affinity_id: "column_affinity ''id'' = Text_affinity"
  by (simp add: column_affinity_def declared_types_def affinity_of_def)


lemma column_affinity_name: "column_affinity ''name'' = Text_affinity"
  by (simp add: column_affinity_def declared_types_def affinity_of_def)

lemma has_id_store_value: "sql_eq (col r ''id'') (store_value ''id'' v) = has_id v r"
  by (simp add: has_id_def store_value_def column_affinity_id)




lemma get_parameter_bindable: "bindable v \<Longrightarrow> get_parameter v = Inr (bindv v)"
  by (cases v) auto

lemma getLaunchById_bindable:
  "bindable v \<Longrightarrow>
   getLaunchById d v =
     (case concat (map (left_join (manual_payloads d)) (filter (has_id v) (launches d))) of
        [] \<Rightarrow> Inr None
      | r # rs \<Rightarrow> Inr (Some r))"
  by (simp add: getLaunchById_def get_parameter_bindable has_id_def [abs_def])

lemma left_join_head:
  "\<exists>extra rest. left_join mps r = (r @ extra) # rest \<and>
     map fst extra = [''manual_payload_mass_kg'', ''manual_payload_source'']"
  by (auto simp: left_join_def split: list.splits)

lemma col_append_left: "c \<in> fst ` set r \<Longrightarrow> col (r @ extra) c = col r c"
  by (auto simp: col_def map_of_append split: option.splits dest: weak_map_of_SomeI)

lemma col_append_other:
  assumes "c \<notin> set (map fst extra)"
  shows "col (r @ extra) c = col r c"
proof -
  from assms have "map_of extra c = None" by (simp add: map_of_eq_None_iff)
  then show ?thesis by (simp add: col_def map_add_def split: option.splits)
qed

lemma getLaunchById_None_iff:
  assumes "bindable v"
  shows "getLaunchById d v = Inr None \<longleftrightarrow> \<not> (\<exists>r \<in> set (launches d). has_id v r)"
proof
  assume a: "getLaunchById d v = Inr None"
  show "\<not> (\<exists>r \<in> set (launches d). has_id v r)"
  proof
    assume "\<exists>r \<in> set (launches d). has_id v r"
    then obtain r where r: "r \<in> set (filter (has_id v) (launches d))" by auto
    have "left_join (manual_payloads d) r \<noteq> []"
      using left_join_head [of "manual_payloads d" r] by auto
    with r have "concat (map (left_join (manual_payloads d)) (filter (has_id v) (launches d))) \<noteq> []"
      by auto
    with a assms show False
      by (auto simp: getLaunchById_bindable split: list.splits)
  qed
next
  assume "\<not> (\<exists>r \<in> set (launches d). has_id v r)"
  then have "filter (has_id v) (launches d) = []" by (simp add: filter_empty_conv)
  with assms show "getLaunchById d v = Inr None" by (simp add: getLaunchById_bindable)
qed

lemma find_filter: "find P xs = Some r \<Longrightarrow> \<exists>rs. filter P xs = r # rs"
  by (induction xs) (auto split: if_splits)

lemma find_Some_in: "find P xs = Some r \<Longrightarrow> r \<in> set xs \<and> P r"
  by (induction xs) (auto split: if_splits)


text \<open>The lookup returns the first row stored under the id, with the columns of the join
  after its own.\<close>

lemma getLaunchById_find:
  assumes "bindable v" and "find (has_id v) (launches d) = Some r"
  shows "\<exists>extra. getLaunchById d v = Inr (Some (r @ extra)) \<and>
           map fst extra = [''manual_payload_mass_kg'', ''manual_payload_source'']"
proof -
  from find_filter [OF assms(2)] obtain rs where rows: "filter (has_id v) (launches d) = r # rs"
    by blast
  obtain extra rest where "left_join (manual_payloads d) r = (r @ extra) # rest"
    and "map fst extra = [''manual_payload_mass_kg'', ''manual_payload_source'']"
    using left_join_head [of "manual_payloads d" r] by auto
  then show ?thesis using assms(1) by (simp add: getLaunchById_bindable rows)
qed

lemma col_joined_row:
  assumes "map fst extra = [''manual_payload_mass_kg'', ''manual_payload_source'']"
    and "k \<in> set launch_columns"
  shows "col (r @ extra) k = col r k"
proof -
  from assms(2) have "k \<noteq> ''manual_payload_mass_kg'' \<and> k \<noteq> ''manual_payload_source''"
    by (auto simp: launch_columns_def)
  with assms(1) show ?thesis by (intro col_append_other) simp
qed

lemma upsertLaunch_Inr:
  assumes "upsertLaunch now d m = Inr (c, d')"
  shows "c = 1" and
    "(\<exists>r \<in> set (launches d). has_id (getp m ''id'') r) \<Longrightarrow>
      d' = d\<lparr>launches := map (\<lambda>r. if has_id (getp m ''id'') r
                 then on_conflict_update now (bound_row m) r
                 else r)
                     (launches d)\<rparr>" and
    "\<not> (\<exists>r \<in> set (launches d). has_id (getp m ''id'') r) \<Longrightarrow>
      d' = d\<lparr>launches := launches d @ [new_row now m]\<rparr>"
  using assms
  by (auto simp: upsertLaunch_def Let_def col_bound_row id_in_launch_columns has_id_store_value
        new_row_def split: if_splits)














lemma last_updated_in_launch_columns: "''last_updated'' \<in> set launch_columns"
  by (simp add: launch_columns_def)

lemma bindable_printable: "bindable v \<Longrightarrow> printable v"
  by (cases v) auto

lemma mapLaunchToDb_not_null: "mapLaunchToDb a = Inr m \<Longrightarrow> \<not> nullish a"
  by (auto simp: mapLaunchToDb_def split: if_splits)

lemma catch_record_loggable:
  "\<not> nullish a \<Longrightarrow> printable (getp a ''id'') \<Longrightarrow> catch_record a s = Normal s"
  by (simp add: catch_record_def dot_def)

text \<open>What \<open>dailySync\<close> does with a record by the answer of the lookup.\<close>

lemma daily_record_new:
  assumes "mapLaunchToDb a = Inr m" and "getLaunchById (sdb s) (getp a ''id'') = Inr None"
  shows "upsertLaunch now (sdb s) m = Inr (c, d') \<Longrightarrow>
           daily_record now a s =
             Normal (s\<lparr>totalFetched := totalFetched s + 1, totalAdded := totalAdded s + 1, sdb := d'\<rparr>)"
    and "upsertLaunch now (sdb s) m = Inl e \<Longrightarrow> printable (getp a ''id'') \<Longrightarrow>
           daily_record now a s = Normal (s\<lparr>totalFetched := totalFetched s + 1\<rparr>)"
  using assms mapLaunchToDb_not_null [OF assms(1)]
  by (simp_all add: daily_record_def catch_record_loggable)

lemma daily_record_found:
  assumes "mapLaunchToDb a = Inr m" and "getLaunchById (sdb s) (getp a ''id'') = Inr (Some ex)"
  shows "\<not> strict_eq (col ex ''last_updated'') (getp m ''last_updated'') \<Longrightarrow>
         upsertLaunch now (sdb s) m = Inr (c, d') \<Longrightarrow>
           daily_record now a s =
             Normal (s\<lparr>totalFetched := totalFetched s + 1, totalUpdated := totalUpdated s + 1, sdb := d'\<rparr>)"
    and "\<not> strict_eq (col ex ''last_updated'') (getp m ''last_updated'') \<Longrightarrow>
         upsertLaunch now (sdb s) m = Inl e \<Longrightarrow> printable (getp a ''id'') \<Longrightarrow>
           daily_record now a s = Normal (s\<lparr>totalFetched := totalFetched s + 1\<rparr>)"
    and "strict_eq (col ex ''last_updated'') (getp m ''last_updated'') \<Longrightarrow>
           daily_record now a s =
             Normal (s\<lparr>totalFetched := totalFetched s + 1, totalUnchanged := totalUnchanged s + 1\<rparr>)"
  using assms mapLaunchToDb_not_null [OF assms(1)]
  by (simp_all add: daily_record_def catch_record_loggable)

lemma upsertLaunch_replaces:
  assumes up: "upsertLaunch now d m = Inr (c, d')"
    and ex: "\<exists>r \<in> set (launches d). has_id (getp m ''id'') r"
  shows "\<forall>r \<in> set (launches d'). has_id (getp m ''id'') r \<longrightarrow>
          (\<forall>k \<in> set launch_columns. k \<noteq> ''id'' \<longrightarrow> col r k = store_value k (getp m k))"
proof (intro ballI impI)
  let ?new = "bound_row m"
  let ?match = "has_id (getp m ''id'')"
  fix r k
  assume r: "r \<in> set (launches d')" and mr: "?match r" and k: "k \<in> set launch_columns" "k \<noteq> ''id''"
  from r upsertLaunch_Inr(2) [OF up ex] obtain r0 where r0: "r0 \<in> set (launches d)"
    "r = (if ?match r0 then on_conflict_update now ?new r0 else r0)" by auto
  have "?match r0"
  proof (rule ccontr)
    assume "\<not> ?match r0"
    with r0 mr show False by simp
  qed
  with r0 have "r = on_conflict_update now ?new r0" by simp
  then show "col r k = store_value k (getp m k)"
    using k launch_columns_not_stamps [OF k(1)]
    by (simp add: col_on_conflict_update launch_columns_in_table col_bound_row)
qed

text \<open>
  C2, as stated, fails.  The payload without a name is not stored, yet it is not
  classified as added: the store rejects the record, and the payload is counted as
  fetched only.  And a payload that is reprocessed with the identical \<open>last_updated\<close>
  \<open>'20250125'\<close> is classified as updated and written again: the column has numeric
  affinity and holds the number 20250125, which \<open>!==\<close> tells from the string.
\<close>

theorem unchanged_timestamp_counted_as_updated:
  "launches empty_db = [] \<and>
   daily_record 1 nameless_payload (fresh_state empty_db) =
     Normal ((fresh_state empty_db)\<lparr>totalFetched := 1\<rparr>) \<and>
   getp (mapped digits_payload) ''last_updated'' = Str ''20250125'' \<and>
   map (\<lambda>r. col r ''last_updated'') (launches stored_digits) = [Num 20250125] \<and>
   daily_record 2 digits_payload (fresh_state stored_digits) =
     Normal ((fresh_state stored_digits)\<lparr>totalFetched := 1, totalUpdated := 1,
        sdb := written 2 stored_digits (mapped digits_payload)\<rparr>)"
  by code_simp

text \<open>
  C2, amended: in \<open>dailySync\<close>, for every payload that is not \<open>null\<close> and whose id is not
  an array or an object.  When no row is stored under the id the record is written; if
  the store accepts it the payload is counted as added and the row of the record is
  appended, and if the store rejects it the payload is counted as fetched only.  When
  rows are stored under the id, the first of them is compared: if its \<open>last_updated\<close>, as
  the store gives it back, is not strictly equal to the mapped one the record is written;
  if the store accepts it the payload is counted as updated and every column of the
  statement but \<open>id\<close> holds, in the rows with that id, the new value as its column
  converts it, and if the store rejects it the payload is counted as fetched only; if
  the two are strictly equal the payload is counted as unchanged and nothing is written.
  In particular a stored string followed by a greater one gives "updated" when the store
  accepts the record, and by the same one "unchanged".
\<close>

theorem daily_record_classifies:
  assumes "mapLaunchToDb a = Inr m" and "bindable (getp a ''id'')"
  shows
   "(\<not> (\<exists>r \<in> set (launches (sdb s)). has_id (getp a ''id'') r) \<longrightarrow>
       (upsertLaunch now (sdb s) m = Inr (c, d') \<longrightarrow>
          daily_record now a s =
            Normal (s\<lparr>totalFetched := totalFetched s + 1, totalAdded := totalAdded s + 1, sdb := d'\<rparr>) \<and>
          d' = (sdb s)\<lparr>launches := launches (sdb s) @ [new_row now m]\<rparr>) \<and>
       (upsertLaunch now (sdb s) m = Inl e \<longrightarrow>
          daily_record now a s = Normal (s\<lparr>totalFetched := totalFetched s + 1\<rparr>))) \<and>
    (find (has_id (getp a ''id'')) (launches (sdb s)) = Some ex \<longrightarrow>
       (\<not> strict_eq (col ex ''last_updated'') (getp m ''last_updated'') \<longrightarrow>
          (upsertLaunch now (sdb s) m = Inr (c, d') \<longrightarrow>
             daily_record now a s =
               Normal (s\<lparr>totalFetched := totalFetched s + 1, totalUpdated := totalUpdated s + 1,
                         sdb := d'\<rparr>) \<and>
             (\<forall>r \<in> set (launches d'). has_id (getp a ''id'') r \<longrightarrow>
                (\<forall>k \<in> set launch_columns. k \<noteq> ''id'' \<longrightarrow> col r k = store_value k (getp m k)))) \<and>
          (upsertLaunch now (sdb s) m = Inl e \<longrightarrow>
             daily_record now a s = Normal (s\<lparr>totalFetched := totalFetched s + 1\<rparr>))) \<and>
       (strict_eq (col ex ''last_updated'') (getp m ''last_updated'') \<longrightarrow>
          daily_record now a s =
            Normal (s\<lparr>totalFetched := totalFetched s + 1, totalUnchanged := totalUnchanged s + 1\<rparr>)) \<and>
       (col ex ''last_updated'' = Str t0 \<and> getp m ''last_updated'' = Str t1 \<and> t0 < t1 \<and>
        upsertLaunch now (sdb s) m = Inr (c, d') \<longrightarrow>
          daily_record now a s =
            Normal (s\<lparr>totalFetched := totalFetched s + 1, totalUpdated := totalUpdated s + 1,
                      sdb := d'\<rparr>)) \<and>
       (col ex ''last_updated'' = Str t0 \<and> getp m ''last_updated'' = Str t0 \<longrightarrow>
          daily_record now a s =
            Normal (s\<lparr>totalFetched := totalFetched s + 1, totalUnchanged := totalUnchanged s + 1\<rparr>)))"
proof -
  have ida: "getp m ''id'' = getp a ''id''" using assms(1) by (rule mapLaunchToDb_id)
  have pr: "printable (getp a ''id'')" using assms(2) by (rule bindable_printable)
  have new: "upsertLaunch now (sdb s) m = Inr (c, d') \<longrightarrow>
          daily_record now a s =
            Normal (s\<lparr>totalFetched := totalFetched s + 1, totalAdded := totalAdded s + 1, sdb := d'\<rparr>) \<and>
          d' = (sdb s)\<lparr>launches := launches (sdb s) @ [new_row now m]\<rparr>"
    and rejected_new: "upsertLaunch now (sdb s) m = Inl e \<longrightarrow>
          daily_record now a s = Normal (s\<lparr>totalFetched := totalFetched s + 1\<rparr>)"
    if none: "\<not> (\<exists>r \<in> set (launches (sdb s)). has_id (getp a ''id'') r)"
  proof -
    from none have look: "getLaunchById (sdb s) (getp a ''id'') = Inr None"
      using getLaunchById_None_iff [OF assms(2)] by simp
    show "upsertLaunch now (sdb s) m = Inr (c, d') \<longrightarrow>
          daily_record now a s =
            Normal (s\<lparr>totalFetched := totalFetched s + 1, totalAdded := totalAdded s + 1, sdb := d'\<rparr>) \<and>
          d' = (sdb s)\<lparr>launches := launches (sdb s) @ [new_row now m]\<rparr>"
      using daily_record_new(1) [OF assms(1) look] upsertLaunch_Inr(3) [of now "sdb s" m c d'] none
      by (simp add: ida)
    show "upsertLaunch now (sdb s) m = Inl e \<longrightarrow>
          daily_record now a s = Normal (s\<lparr>totalFetched := totalFetched s + 1\<rparr>)"
      using daily_record_new(2) [OF assms(1) look] pr by simp
  qed
  have found: "(\<not> strict_eq (col ex ''last_updated'') (getp m ''last_updated'') \<longrightarrow>
          (upsertLaunch now (sdb s) m = Inr (c, d') \<longrightarrow>
             daily_record now a s =
               Normal (s\<lparr>totalFetched := totalFetched s + 1, totalUpdated := totalUpdated s + 1,
                         sdb := d'\<rparr>) \<and>
             (\<forall>r \<in> set (launches d'). has_id (getp a ''id'') r \<longrightarrow>
                (\<forall>k \<in> set launch_columns. k \<noteq> ''id'' \<longrightarrow> col r k = store_value k (getp m k)))) \<and>
          (upsertLaunch now (sdb s) m = Inl e \<longrightarrow>
             daily_record now a s = Normal (s\<lparr>totalFetched := totalFetched s + 1\<rparr>))) \<and>
       (strict_eq (col ex ''last_updated'') (getp m ''last_updated'') \<longrightarrow>
          daily_record now a s =
            Normal (s\<lparr>totalFetched := totalFetched s + 1, totalUnchanged := totalUnchanged s + 1\<rparr>))"
    if f: "find (has_id (getp a ''id'')) (launches (sdb s)) = Some ex"
  proof -
    from getLaunchById_find [OF assms(2) f] obtain extra where
      look: "getLaunchById (sdb s) (getp a ''id'') = Inr (Some (ex @ extra))"
      and extra: "map fst extra = [''manual_payload_mass_kg'', ''manual_payload_source'']"
      by auto
    have stamp: "col (ex @ extra) ''last_updated'' = col ex ''last_updated''"
      using col_joined_row [OF extra last_updated_in_launch_columns] .
    from find_Some_in [OF f] have ex: "\<exists>r \<in> set (launches (sdb s)). has_id (getp m ''id'') r"
      by (auto simp: ida)
    show ?thesis
      using daily_record_found [OF assms(1) look] pr
        upsertLaunch_replaces [of now "sdb s" m c d'] ex
      by (simp add: stamp ida)
  qed
  have less: "t0 < t1 \<Longrightarrow> \<not> strict_eq (Str t0) (Str t1)" for t0 t1 :: string
    by (auto simp: strict_eq_def)
  have same: "strict_eq (Str t0) (Str t0)" for t0 by (simp add: strict_eq_def)
  show ?thesis
  proof (intro conjI impI)
    assume "\<not> (\<exists>r \<in> set (launches (sdb s)). has_id (getp a ''id'') r)"
      and "upsertLaunch now (sdb s) m = Inr (c, d')"
    with new show "daily_record now a s =
        Normal (s\<lparr>totalFetched := totalFetched s + 1, totalAdded := totalAdded s + 1, sdb := d'\<rparr>)"
      and "d' = (sdb s)\<lparr>launches := launches (sdb s) @ [new_row now m]\<rparr>"
      by simp_all
  next
    assume "\<not> (\<exists>r \<in> set (launches (sdb s)). has_id (getp a ''id'') r)"
      and "upsertLaunch now (sdb s) m = Inl e"
    with rejected_new show "daily_record now a s = Normal (s\<lparr>totalFetched := totalFetched s + 1\<rparr>)"
      by simp
  next
    assume f: "find (has_id (getp a ''id'')) (launches (sdb s)) = Some ex"
      and "\<not> strict_eq (col ex ''last_updated'') (getp m ''last_updated'')"
      and "upsertLaunch now (sdb s) m = Inr (c, d')"
    with found [OF f] show "daily_record now a s =
        Normal (s\<lparr>totalFetched := totalFetched s + 1, totalUpdated := totalUpdated s + 1, sdb := d'\<rparr>)"
      and "\<forall>r \<in> set (launches d'). has_id (getp a ''id'') r \<longrightarrow>
             (\<forall>k \<in> set launch_columns. k \<noteq> ''id'' \<longrightarrow> col r k = store_value k (getp m k))"
      by simp_all
  next
    assume f: "find (has_id (getp a ''id'')) (launches (sdb s)) = Some ex"
      and "\<not> strict_eq (col ex ''last_updated'') (getp m ''last_updated'')"
      and "upsertLaunch now (sdb s) m = Inl e"
    with found [OF f] show "daily_record now a s = Normal (s\<lparr>totalFetched := totalFetched s + 1\<rparr>)"
      by simp
  next
    assume f: "find (has_id (getp a ''id'')) (launches (sdb s)) = Some ex"
      and "strict_eq (col ex ''last_updated'') (getp m ''last_updated'')"
    with found [OF f] show "daily_record now a s =
        Normal (s\<lparr>totalFetched := totalFetched s + 1, totalUnchanged := totalUnchanged s + 1\<rparr>)"
      by simp
  next
    assume f: "find (has_id (getp a ''id'')) (launches (sdb s)) = Some ex"
      and h: "col ex ''last_updated'' = Str t0 \<and> getp m ''last_updated'' = Str t1 \<and> t0 < t1 \<and>
        upsertLaunch now (sdb s) m = Inr (c, d')"
    then have "\<not> strict_eq (col ex ''last_updated'') (getp m ''last_updated'')"
      using less [of t0 t1] by simp
    with found [OF f] h show "daily_record now a s =
        Normal (s\<lparr>totalFetched := totalFetched s + 1, totalUpdated := totalUpdated s + 1, sdb := d'\<rparr>)"
      by simp
  next
    assume f: "find (has_id (getp a ''id'')) (launches (sdb s)) = Some ex"
      and h: "col ex ''last_updated'' = Str t0 \<and> getp m ''last_updated'' = Str t0"
    then have "strict_eq (col ex ''last_updated'') (getp m ''last_updated'')"
      using same [of t0] by simp
    with found [OF f] show "daily_record now a s =
        Normal (s\<lparr>totalFetched := totalFetched s + 1, totalUnchanged := totalUnchanged s + 1\<rparr>)"
      by simp
  qed
qed

lemma mapped_sample: "mapLaunchToDb sample_payload = Inr (mapped sample_payload)"
  by (simp add: mapped_def mapLaunchToDb_def sample_payload_def nullish_def)

lemma mapped_later: "mapLaunchToDb later_payload = Inr (mapped later_payload)"
  by (simp add: mapped_def mapLaunchToDb_def later_payload_def nullish_def)

lemma mapped_nameless: "mapLaunchToDb nameless_payload = Inr (mapped nameless_payload)"
  by (simp add: mapped_def mapLaunchToDb_def nameless_payload_def nullish_def)

lemma sample_ids:
  "bindable (getp sample_payload ''id'')" "bindable (getp later_payload ''id'')"
  "bindable (getp nameless_payload ''id'')"
  by (simp_all add: sample_payload_def later_payload_def nameless_payload_def)

lemma upsert_sample_once:
  "upsertLaunch 1 empty_db (mapped sample_payload) = Inr (1, stored_once)"
  by code_simp

lemma upsert_later:
  "upsertLaunch 3 stored_once (mapped later_payload) = Inr (1, written 3 stored_once (mapped later_payload))"
  by code_simp

lemma nameless_rejected:
  "upsertLaunch 2 empty_db (mapped nameless_payload) = Inl SqliteError"
  by code_simp

lemma find_sample:
  "find (has_id (getp sample_payload ''id'')) (launches stored_once) = Some (hd (launches stored_once))"
  by code_simp

lemma find_later:
  "find (has_id (getp later_payload ''id'')) (launches stored_once) = Some (hd (launches stored_once))"
  by code_simp

lemma stamp_same:
  "strict_eq (col (hd (launches stored_once)) ''last_updated'') (getp (mapped sample_payload) ''last_updated'')"
  by code_simp

lemma stamp_later:
  "\<not> strict_eq (col (hd (launches stored_once)) ''last_updated'') (getp (mapped later_payload) ''last_updated'')"
  by code_simp

lemma fresh_state_fields:
  "sdb (fresh_state d) = d" "totalFetched (fresh_state d) = 0" "totalAdded (fresh_state d) = 0"
  "totalUpdated (fresh_state d) = 0" "totalUnchanged (fresh_state d) = 0" "syncId (fresh_state d) = 1"
  by (simp_all add: fresh_state_def)

theorem daily_record_classifies_witness:
  "mapLaunchToDb sample_payload = Inr (mapped sample_payload) \<and>
   bindable (getp sample_payload ''id'') \<and> launches empty_db = [] \<and>
   upsertLaunch 1 empty_db (mapped sample_payload) = Inr (1, stored_once) \<and>
   daily_record 1 sample_payload (fresh_state empty_db) =
     Normal ((fresh_state empty_db)\<lparr>totalFetched := 1, totalAdded := 1, sdb := stored_once\<rparr>) \<and>
   stored_once = empty_db\<lparr>launches := [new_row 1 (mapped sample_payload)]\<rparr> \<and>
   upsertLaunch 2 empty_db (mapped nameless_payload) = Inl SqliteError \<and>
   daily_record 2 nameless_payload (fresh_state empty_db) =
     Normal ((fresh_state empty_db)\<lparr>totalFetched := 1\<rparr>) \<and>
   find (has_id (getp later_payload ''id'')) (launches stored_once) = Some (hd (launches stored_once)) \<and>
   daily_record 3 later_payload (fresh_state stored_once) =
     Normal ((fresh_state stored_once)\<lparr>totalFetched := 1, totalUpdated := 1,
        sdb := written 3 stored_once (mapped later_payload)\<rparr>) \<and>
   daily_record 2 sample_payload (fresh_state stored_once) =
     Normal ((fresh_state stored_once)\<lparr>totalFetched := 1, totalUnchanged := 1\<rparr>)"
proof -
  have e: "launches empty_db = []" by (simp add: empty_db_def)
  note w1 = daily_record_classifies [OF mapped_sample sample_ids(1), where s = "fresh_state empty_db"
      and now = 1 and c = 1 and d' = stored_once]
  have 1: "daily_record 1 sample_payload (fresh_state empty_db) =
     Normal ((fresh_state empty_db)\<lparr>totalFetched := 1, totalAdded := 1, sdb := stored_once\<rparr>)"
    and 2: "stored_once = empty_db\<lparr>launches := [new_row 1 (mapped sample_payload)]\<rparr>"
    using w1 upsert_sample_once e by (simp_all add: fresh_state_fields)
  note w2 = daily_record_classifies [OF mapped_nameless sample_ids(3), where s = "fresh_state empty_db"
      and now = 2 and e = SqliteError]
  have 3: "daily_record 2 nameless_payload (fresh_state empty_db) =
     Normal ((fresh_state empty_db)\<lparr>totalFetched := 1\<rparr>)"
    using w2 nameless_rejected e by (simp add: fresh_state_fields)
  note w3 = daily_record_classifies [OF mapped_later sample_ids(2), where s = "fresh_state stored_once"
      and ex = "hd (launches stored_once)" and now = 3 and c = 1
      and d' = "written 3 stored_once (mapped later_payload)"]
  have 4: "daily_record 3 later_payload (fresh_state stored_once) =
     Normal ((fresh_state stored_once)\<lparr>totalFetched := 1, totalUpdated := 1,
        sdb := written 3 stored_once (mapped later_payload)\<rparr>)"
    using w3 find_later stamp_later upsert_later by (simp add: fresh_state_fields)
  note w4 = daily_record_classifies [OF mapped_sample sample_ids(1), where s = "fresh_state stored_once"
      and ex = "hd (launches stored_once)" and now = 2]
  have 5: "daily_record 2 sample_payload (fresh_state stored_once) =
     Normal ((fresh_state stored_once)\<lparr>totalFetched := 1, totalUnchanged := 1\<rparr>)"
    using w4 find_sample stamp_same by (simp add: fresh_state_fields)
  from 1 2 3 4 5 mapped_sample sample_ids(1) e upsert_sample_once nameless_rejected find_later
  show ?thesis by simp
qed





lemma sample_stamp: "getp (mapped sample_payload) ''last_updated'' = Str ''2025-01-25T12:00:00Z''"
  by code_simp







section \<open>The journal and the two scripts: properties\<close>


lemma upsertLaunch_frame:
  "upsertLaunch now d m = Inr (c, d') \<Longrightarrow>
   sync_log d' = sync_log d \<and> manual_payloads d' = manual_payloads d \<and> c = 1"
  by (auto simp: upsertLaunch_def Let_def split: if_splits)

lemma catch_record_final: "final (catch_record a s) = s"
  by (simp add: catch_record_def split: sum.splits)

lemma daily_step_ok_refl: "daily_step_ok s s"
  by (simp add: daily_step_ok_def)

lemma daily_step_ok_trans: "daily_step_ok s s' \<Longrightarrow> daily_step_ok s' s'' \<Longrightarrow> daily_step_ok s s''"
  by (auto simp: daily_step_ok_def)

lemma daily_record_step: "daily_step_ok s (final (daily_record now a s))"
  by (auto simp: daily_record_def daily_step_ok_def catch_record_final Let_def
      dest!: upsertLaunch_frame split: sum.splits option.splits)

lemma for_of_daily_step: "daily_step_ok s (final (for_of (daily_record now) xs s))"
proof (induction xs arbitrary: s)
  case Nil
  then show ?case by (simp add: daily_step_ok_refl)
next
  case (Cons a xs)
  show ?case
  proof (cases "daily_record now a s")
    case (Normal s')
    with daily_record_step [of s now a] have "daily_step_ok s s'" by simp
    with Cons [of s'] Normal show ?thesis by (auto intro: daily_step_ok_trans)
  next
    case (Abrupt e s')
    with daily_record_step [of s now a] show ?thesis by simp
  qed
qed

lemma initial_step_ok_refl: "initial_step_ok s s"
  by (simp add: initial_step_ok_def)

lemma initial_step_ok_trans:
  "initial_step_ok s s' \<Longrightarrow> initial_step_ok s' s'' \<Longrightarrow> initial_step_ok s s''"
  by (auto simp: initial_step_ok_def)

lemma initial_record_step: "initial_step_ok s (final (initial_record now a s))"
  by (auto simp: initial_record_def initial_step_ok_def catch_record_final Let_def
      dest!: upsertLaunch_frame split: sum.splits)

lemma for_of_initial_step: "initial_step_ok s (final (for_of (initial_record now) xs s))"
proof (induction xs arbitrary: s)
  case Nil
  then show ?case by (simp add: initial_step_ok_refl)
next
  case (Cons a xs)
  show ?case
  proof (cases "initial_record now a s")
    case (Normal s')
    with initial_record_step [of s now a] have "initial_step_ok s s'" by simp
    with Cons [of s'] Normal show ?thesis by (auto intro: initial_step_ok_trans)
  next
    case (Abrupt e s')
    with initial_record_step [of s now a] show ?thesis by simp
  qed
qed

lemma foldl_set_field:
  "run_id (foldl set_field r ups) = run_id r \<and> sync_type (foldl set_field r ups) = sync_type r \<and>
   started_at (foldl set_field r ups) = started_at r \<and>
   (status (foldl set_field r ups) = status r \<or> Status (status (foldl set_field r ups)) \<in> set ups)"
proof (induction ups arbitrary: r)
  case Nil
  then show ?case by simp
next
  case (Cons u ups)
  from Cons [of "set_field r u"] show ?case by (cases u) auto
qed

lemma sync_log_updateSyncLog:
  "sync_log (updateSyncLog d sid ups) =
     map (\<lambda>r. if run_id r = sid then foldl set_field r ups else r) (sync_log d)"
  by (simp add: updateSyncLog_def)
































lemma createSyncLog_result:
  "createSyncLog now d ty =
    (next_run_id (sync_log d),
     d\<lparr>sync_log := sync_log d @
        [\<lparr>run_id = next_run_id (sync_log d), sync_type = ty, started_at = now, completed_at = None,
          records_fetched = 0, records_added = 0, records_updated = 0, records_unchanged = 0,
          status = ''running'', error_message = None, api_calls_made = 0,
          last_api_offset = None\<rparr>]\<rparr>)"
  by (simp add: createSyncLog_def Let_def)




lemma latest_in: "latest r rs \<in> set (r # rs)"
  by (induction rs arbitrary: r) auto







lemma length_running_dailySync_start:
  "length (running (sdb (dailySync_start now d))) = length (running d) + 1"
  by (simp add: dailySync_start_def createSyncLog_result running_def)

lemma initialLoad_start_resumes:
  "running_full d \<noteq> [] \<Longrightarrow> sdb (initialLoad_start now d) = d"
  by (auto simp: initialLoad_start_def incompleteSync_def running_full_def split: list.splits)

lemma initialLoad_start_after_lookup:
  "initialLoad_start now d = initialLoad_after_lookup now (incompleteSync d) d"
  by (simp add: initialLoad_start_def initialLoad_after_lookup_def)

lemma initialLoad_after_lookup_Some: "sdb (initialLoad_after_lookup now (Some r) d) = d"
  by (simp add: initialLoad_after_lookup_def)

lemma initialLoad_after_lookup_None:
  "sync_log (sdb (initialLoad_after_lookup now None d)) = sync_log d @ [new_run now (sync_log d) ''full'']"
  by (simp add: initialLoad_after_lookup_def createSyncLog_result new_run_def)

lemma running_full_new_run:
  "running_full d = [] \<Longrightarrow> length (running_full (sdb (initialLoad_start now d))) = 1"
  by (auto simp: initialLoad_start_def incompleteSync_def running_full_def createSyncLog_result
      split: list.splits)

lemma running_full_dailySync_start:
  "running_full (sdb (dailySync_start now d)) = running_full d"
  by (simp add: dailySync_start_def createSyncLog_result running_full_def)

lemma length_filter_map_le:
  "(\<And>x. x \<in> set xs \<Longrightarrow> P (f x) \<Longrightarrow> P x) \<Longrightarrow> length (filter P (map f xs)) \<le> length (filter P xs)"
  by (induction xs) auto

lemma running_full_updateSyncLog:
  assumes "\<forall>st. Status st \<in> set ups \<longrightarrow> st = ''success'' \<or> st = ''failed''"
  shows "length (running_full (updateSyncLog d sid ups)) \<le> length (running_full d)"
proof -
  have "sync_type (if run_id r = sid then foldl set_field r ups else r) = ''full'' \<and>
        status (if run_id r = sid then foldl set_field r ups else r) = ''running'' \<Longrightarrow>
        sync_type r = ''full'' \<and> status r = ''running''" for r
    using foldl_set_field [of r ups] assms by (auto split: if_splits)
  then show ?thesis
    unfolding running_full_def sync_log_updateSyncLog
    by (intro length_filter_map_le) blast
qed

text \<open>However the statements of the invocations interleave, a full load that reads the
  journal and inserts its row in one step leaves at most one full run running.\<close>

lemma interleaved_running_full: "interleaved d \<Longrightarrow> length (running_full d) \<le> 1"
proof (induction rule: interleaved.induct)
  case (no_runs d)
  then show ?case by (simp add: running_full_def)
next
  case (full_start d now)
  show ?case
  proof (cases "running_full d = []")
    case True
    then show ?thesis by (simp add: running_full_new_run)
  next
    case False
    with full_start show ?thesis by (simp add: initialLoad_start_resumes)
  qed
next
  case (incremental_start d now)
  then show ?case by (simp add: running_full_dailySync_start)
next
  case (journal_write d updates sid)
  from running_full_updateSyncLog [OF journal_write(2), of d sid] journal_write(3)
  show ?case by simp
next
  case (other_write d d')
  then show ?case by (simp add: running_full_def)
qed

text \<open>The runs of the two scripts, one after the other, are among the interleavings.\<close>

lemma interleaved_exits:
  assumes "interleaved (sdb s)"
  shows "interleaved (db_of (daily_failed now e s))" "interleaved (db_of (daily_success now s))"
    "interleaved (db_of (initial_failed now e s))" "interleaved (db_of (initial_success now s))"
  unfolding daily_failed_def daily_success_def initial_failed_def initial_success_def
  using assms by (auto intro!: interleaved.journal_write)

lemma interleaved_for_of:
  assumes "interleaved (sdb s)"
  shows "interleaved (sdb (final (for_of (daily_record now) xs s)))"
    "interleaved (sdb (final (for_of (initial_record now) xs s)))"
proof -
  from for_of_daily_step [of s now xs]
  have "sync_log (sdb (final (for_of (daily_record now) xs s))) = sync_log (sdb s)"
    by (simp add: daily_step_ok_def)
  with assms show "interleaved (sdb (final (for_of (daily_record now) xs s)))"
    by (rule interleaved.other_write)
  from for_of_initial_step [of s now xs]
  have "sync_log (sdb (final (for_of (initial_record now) xs s))) = sync_log (sdb s)"
    by (simp add: initial_step_ok_def)
  with assms show "interleaved (sdb (final (for_of (initial_record now) xs s)))"
    by (rule interleaved.other_write)
qed

lemma interleaved_checkpoint:
  assumes "interleaved d" and "\<forall>st. Status st \<notin> set ups"
  shows "interleaved (updateSyncLog d sid ups)"
  using assms by (auto intro: interleaved.journal_write)

lemma daily_loop_interleaved:
  "interleaved (sdb s) \<Longrightarrow> interleaved (db_of (daily_loop script s))"
proof (induction script arbitrary: s)
  case Nil
  then show ?case by simp
next
  case (Cons x script)
  obtain now outcome where x: "x = (now, outcome)" by (cases x)
  show ?case
  proof (cases outcome)
    case (Throws m)
    then show ?thesis using interleaved_exits(1) [OF Cons.prems] by (simp add: x)
  next
    case (Returns response)
    let ?s1 = "s\<lparr>apiCalls := apiCalls s + 1\<rparr>"
    have s1: "interleaved (sdb ?s1)" using Cons.prems by simp
    have page: "interleaved
        (db_of (case for_of (daily_record now) xs ?s1 of
            Abrupt e s2 \<Rightarrow> daily_failed now e s2
          | Normal s2 \<Rightarrow>
              let s3 = s2\<lparr>sdb := updateSyncLog (sdb s2) (syncId s2)
                        [Records_fetched (totalFetched s2), Records_added (totalAdded s2),
                         Records_updated (totalUpdated s2),
                         Records_unchanged (totalUnchanged s2),
                         Api_calls_made (apiCalls s2), Last_api_offset (offset s2)]\<rparr>;
                  hasMore = (getp response ''next'' \<noteq> Null);
                  s4 = s3\<lparr>offset := offset s3 + BATCH_SIZE\<rparr>
              in if hasMore then daily_loop script s4 else daily_success now s4))" for xs
    proof (cases "for_of (daily_record now) xs ?s1")
      case (Abrupt e s2)
      with interleaved_for_of(1) [OF s1, of now xs] have "interleaved (sdb s2)" by simp
      from interleaved_exits(1) [OF this] Abrupt show ?thesis by simp
    next
      case (Normal s2)
      with interleaved_for_of(1) [OF s1, of now xs] have s2: "interleaved (sdb s2)" by simp
      let ?ups = "[Records_fetched (totalFetched s2), Records_added (totalAdded s2),
                         Records_updated (totalUpdated s2),
                         Records_unchanged (totalUnchanged s2),
                         Api_calls_made (apiCalls s2), Last_api_offset (offset s2)]"
      let ?s4 = "s2\<lparr>sdb := updateSyncLog (sdb s2) (syncId s2) ?ups, offset := offset s2 + BATCH_SIZE\<rparr>"
      have a: "interleaved (sdb ?s4)"
        using interleaved_checkpoint [OF s2, of ?ups "syncId s2"] by simp
      from Cons.IH [OF a] interleaved_exits(2) [OF a] Normal show ?thesis
        by (simp add: Let_def)
    qed
    show ?thesis
      using interleaved_exits(1) [OF s1] interleaved_exits(2) [OF s1] page
      by (simp add: x Returns Let_def split: sum.splits)
  qed
qed

lemma initial_loop_interleaved:
  "interleaved (sdb s) \<Longrightarrow> interleaved (db_of (initial_loop retries script s))"
proof (induction script arbitrary: s retries)
  case Nil
  then show ?case by simp
next
  case (Cons x script)
  obtain now outcome where x: "x = (now, outcome)" by (cases x)
  show ?case
  proof (cases outcome)
    case (Throws m)
    then show ?thesis
      using interleaved_exits(3) [OF Cons.prems] Cons.IH [OF Cons.prems] by (simp add: x)
  next
    case (Returns response)
    let ?s1 = "s\<lparr>apiCalls := apiCalls s + 1\<rparr>"
    have s1: "interleaved (sdb ?s1)" using Cons.prems by simp
    have page: "interleaved
        (db_of (case for_of (initial_record now) xs ?s1 of
            Abrupt e s2 \<Rightarrow> initial_failed now e s2
          | Normal s2 \<Rightarrow>
              let s3 = s2\<lparr>sdb := updateSyncLog (sdb s2) (syncId s2)
                        [Records_fetched (totalFetched s2), Records_added (totalAdded s2),
                         Records_updated (totalUpdated s2),
                         Api_calls_made (apiCalls s2), Last_api_offset (offset s2)]\<rparr>;
                  hasMore = (getp response ''next'' \<noteq> Null);
                  s4 = s3\<lparr>offset := offset s3 + BATCH_SIZE\<rparr>
              in if hasMore then initial_loop 0 script s4 else initial_success now s4))" for xs
    proof (cases "for_of (initial_record now) xs ?s1")
      case (Abrupt e s2)
      with interleaved_for_of(2) [OF s1, of now xs] have "interleaved (sdb s2)" by simp
      from interleaved_exits(3) [OF this] Abrupt show ?thesis by simp
    next
      case (Normal s2)
      with interleaved_for_of(2) [OF s1, of now xs] have s2: "interleaved (sdb s2)" by simp
      let ?ups = "[Records_fetched (totalFetched s2), Records_added (totalAdded s2),
                         Records_updated (totalUpdated s2),
                         Api_calls_made (apiCalls s2), Last_api_offset (offset s2)]"
      let ?s4 = "s2\<lparr>sdb := updateSyncLog (sdb s2) (syncId s2) ?ups, offset := offset s2 + BATCH_SIZE\<rparr>"
      have a: "interleaved (sdb ?s4)"
        using interleaved_checkpoint [OF s2, of ?ups "syncId s2"] by simp
      from Cons.IH [OF a] interleaved_exits(4) [OF a] Normal show ?thesis
        by (simp add: Let_def)
    qed
    show ?thesis
      using interleaved_exits(3) [OF s1] interleaved_exits(4) [OF s1] page
      by (simp add: x Returns Let_def split: sum.splits)
  qed
qed

lemma reachable_interleaved: "reachable d \<Longrightarrow> interleaved d"
proof (induction rule: reachable.induct)
  case (start d)
  then show ?case by (rule interleaved.no_runs)
next
  case (daily d now script)
  from daily.IH have "interleaved (sdb (dailySync_start now d))"
    by (rule interleaved.incremental_start)
  then show ?case unfolding dailySync_def by (rule daily_loop_interleaved)
next
  case (initial d now script)
  from initial.IH have "interleaved (sdb (initialLoad_start now d))"
    by (rule interleaved.full_start)
  then show ?case unfolding initialLoad_def by (rule initial_loop_interleaved)
next
  case (other d d')
  from other.IH other.hyps(2) show ?case by (rule interleaved.other_write)
qed

text \<open>
  C4, as stated, fails.  A full load is started and, while its run is still
  \<open>'running'\<close>, an incremental sync is started; \<open>createSyncLog\<close> inserts its row
  without looking at the journal, and two runs are \<open>'running'\<close>.  And two full loads
  are started together on the empty journal: each finds no running run before the other
  has inserted its row, both insert, and two full runs are \<open>'running'\<close>.
\<close>

theorem two_runs_running:
  "reachable two_running \<and>
   map (\<lambda>r. (sync_type r, status r)) (sync_log two_running) =
     [(''full'', ''running''), (''incremental'', ''running'')] \<and>
   incompleteSync empty_db = None \<and>
   map (\<lambda>r. (sync_type r, status r, run_id r)) (sync_log racing_loads) =
     [(''full'', ''running'', 1), (''full'', ''running'', 2)]"
proof (intro conjI)
  have "reachable empty_db" by (rule reachable.start) (simp add: empty_db_def)
  then have "reachable interrupted_full"
    unfolding interrupted_full_def by (rule reachable.initial)
  then show "reachable two_running"
    unfolding two_running_def by (rule reachable.daily)
  show "map (\<lambda>r. (sync_type r, status r)) (sync_log two_running) =
     [(''full'', ''running''), (''incremental'', ''running'')]"
    by code_simp
  show "incompleteSync empty_db = None" by code_simp
  show "map (\<lambda>r. (sync_type r, status r, run_id r)) (sync_log racing_loads) =
     [(''full'', ''running'', 1), (''full'', ''running'', 2)]"
    by code_simp
qed

text \<open>
  C4, amended: the scripts have no admission check.  \<open>dailySync\<close> adds one
  \<open>'running'\<close> run to those there are on every invocation.  \<open>initialLoad\<close> reads the
  journal first: when it finds a running full run it takes that run up and inserts no
  row, whatever the journal has become by then; when it finds none it inserts a
  \<open>'running'\<close> full run into the journal as it is by then, without reading it again.
  So at most one run of type \<open>'full'\<close> is \<open>'running'\<close> in every state that the
  invocations can reach, however their statements interleave, as long as no statement
  of another process comes between the \<open>SELECT\<close> of an \<open>initialLoad\<close> and its
  \<open>INSERT\<close>; the runs of the scripts one after the other are such interleavings.
\<close>

theorem one_running_full_load:
  "(interleaved d \<longrightarrow> length (running_full d) \<le> 1) \<and>
   (reachable d \<longrightarrow> interleaved d) \<and>
   initialLoad_start now d = initialLoad_after_lookup now (incompleteSync d) d \<and>
   sdb (initialLoad_after_lookup now (Some r) d') = d' \<and>
   sync_log (sdb (initialLoad_after_lookup now None d')) =
     sync_log d' @ [new_run now (sync_log d') ''full''] \<and>
   length (running (sdb (dailySync_start now d))) = length (running d) + 1"
  using interleaved_running_full [of d] reachable_interleaved [of d]
  by (simp add: initialLoad_start_after_lookup initialLoad_after_lookup_Some
      initialLoad_after_lookup_None length_running_dailySync_start)

lemma reachable_interrupted_full: "reachable interrupted_full"
proof -
  have "reachable empty_db" by (rule reachable.start) (simp add: empty_db_def)
  then show ?thesis unfolding interrupted_full_def by (rule reachable.initial)
qed

theorem one_running_full_load_witness:
  "reachable interrupted_full \<and> interleaved interrupted_full \<and>
   length (running_full interrupted_full) = 1 \<and>
   sdb (initialLoad_start 7 interrupted_full) = interrupted_full \<and>
   length (running (sdb (dailySync_start 7 interrupted_full))) = 2"
proof -
  have a: "length (running_full interrupted_full) = 1" by code_simp
  have b: "length (running interrupted_full) = 1" by code_simp
  have c: "incompleteSync interrupted_full = Some (hd (sync_log interrupted_full))" by code_simp
  note w = one_running_full_load [of interrupted_full 7 "hd (sync_log interrupted_full)" interrupted_full]
  from w reachable_interrupted_full have i: "interleaved interrupted_full" by blast
  from w c have r: "sdb (initialLoad_start 7 interrupted_full) = interrupted_full" by simp
  from w b have d: "length (running (sdb (dailySync_start 7 interrupted_full))) = 2" by simp
  from reachable_interrupted_full i a r d show ?thesis by simp
qed






























lemma ends_with_initial_failed: "ends_with (initial_failed now e s) 1 ''failed'' (syncId s)"
  by (auto simp: ends_with_def initial_failed_def sync_log_updateSyncLog)


























lemma latest_is_latest: "x \<in> set (r # rs) \<Longrightarrow> started_at x \<le> started_at (latest r rs)"
proof (induction rs arbitrary: r x)
  case Nil
  then show ?case by simp
next
  case (Cons y ys)
  let ?r' = "if started_at r < started_at y then y else r"
  have a: "started_at r \<le> started_at (latest ?r' ys)" "started_at y \<le> started_at (latest ?r' ys)"
    using Cons.IH [of ?r' ?r'] by (auto split: if_splits)
  from Cons.prems consider "x = r" | "x = y" | "x \<in> set ys" by auto
  then show ?case
  proof cases
    case 1 with a show ?thesis by simp
  next
    case 2 with a show ?thesis by simp
  next
    case 3 with Cons.IH [of x ?r'] show ?thesis by simp
  qed
qed

lemma incompleteSync_latest:
  assumes "running_full d \<noteq> []"
  shows "\<exists>r \<in> set (running_full d). incompleteSync d = Some r \<and>
           (\<forall>r' \<in> set (running_full d). started_at r' \<le> started_at r)"
proof -
  from assms obtain x xs where rf: "running_full d = x # xs" by (cases "running_full d") auto
  then have "incompleteSync d = Some (latest x xs)"
    by (simp add: incompleteSync_def running_full_def)
  with latest_in [of x xs] latest_is_latest [of _ x xs] rf show ?thesis by auto
qed

lemma initial_loop_throttled:
  assumes "retries \<le> 3" and "4 - retries \<le> length script"
    and "\<forall>x \<in> set (take (4 - retries) script). throttled_outcome x"
  shows "\<exists>now. initial_loop retries script s =
           initial_failed now
             (ApiError ''Rate limit exceeded after 3 retries. Please try again later.'') s"
  using assms
proof (induction script arbitrary: retries)
  case Nil
  then show ?case by simp
next
  case (Cons x script)
  obtain now out where x: "x = (now, out)" by (cases x)
  from Cons.prems(1) have pos: "4 - retries = Suc (3 - retries)" by simp
  with Cons.prems(3) have "throttled_outcome x" by simp
  with x obtain m where m: "out = Throws m" "throttled m" by (cases out) auto
  show ?case
  proof (cases "retries = 3")
    case True
    with m x show ?thesis by (auto simp: throttled_def maxRetries_def)
  next
    case False
    with Cons.prems(1) have r: "retries + 1 \<le> 3" by simp
    have l: "4 - (retries + 1) \<le> length script" using Cons.prems(2) by simp
    have t: "\<forall>x \<in> set (take (4 - (retries + 1)) script). throttled_outcome x"
      using Cons.prems(3) pos by simp
    from Cons.IH [OF r l t] False Cons.prems(1) m x show ?thesis
      by (auto simp: throttled_def maxRetries_def)
  qed
qed

lemma initial_failed_checkpoint:
  "map last_api_offset (sync_log (db_of (initial_failed now e s))) =
   map last_api_offset (sync_log (sdb s))"
  by (simp add: initial_failed_def sync_log_updateSyncLog comp_def)

text \<open>
  C1, amended: \<open>initialLoad\<close> resumes the running run of type \<open>'full'\<close> that started
  last, from \<open>last_api_offset + 100\<close> when that run has a checkpoint, and with its
  counters fetched, added and API calls, and creates a new run when no full run is running; \<open>dailySync\<close> always
  creates a new run and starts at offset 0 with counters 0.  When four calls of the
  adapter in a row are throttled, \<open>initialLoad\<close> exits with code 1 and marks its run
  \<open>'failed'\<close>, and every row of the journal keeps its \<open>last_api_offset\<close>.
\<close>

theorem resume_and_restart:
  "(running_full d \<noteq> [] \<longrightarrow>
      (\<exists>r \<in> set (running_full d).
         (\<forall>r' \<in> set (running_full d). started_at r' \<le> started_at r) \<and>
         syncId (initialLoad_start now d) = run_id r \<and>
         (\<forall>k. last_api_offset r = Some k \<longrightarrow>
              offset (initialLoad_start now d) = k + BATCH_SIZE) \<and>
         totalFetched (initialLoad_start now d) = records_fetched r \<and>
         totalAdded (initialLoad_start now d) = records_added r \<and>
         apiCalls (initialLoad_start now d) = api_calls_made r \<and>
         sdb (initialLoad_start now d) = d)) \<and>
   (running_full d = [] \<longrightarrow>
      initialLoad_start now d =
        \<lparr>syncId = next_run_id (sync_log d), offset = 0, totalFetched = 0, totalAdded = 0,
         totalUpdated = 0, totalUnchanged = 0, apiCalls = 0,
         sdb = snd (createSyncLog now d ''full'')\<rparr>) \<and>
   dailySync_start now d =
     \<lparr>syncId = next_run_id (sync_log d), offset = 0, totalFetched = 0, totalAdded = 0,
      totalUpdated = 0, totalUnchanged = 0, apiCalls = 0,
      sdb = snd (createSyncLog now d ''incremental'')\<rparr> \<and>
   (4 \<le> length script \<and> (\<forall>x \<in> set (take 4 script). throttled_outcome x) \<longrightarrow>
      ends_with (initial_loop 0 script s) 1 ''failed'' (syncId s) \<and>
      map last_api_offset (sync_log (db_of (initial_loop 0 script s))) =
        map last_api_offset (sync_log (sdb s)))"
proof (intro conjI impI)
  assume "running_full d \<noteq> []"
  from incompleteSync_latest [OF this] obtain r where
    r: "r \<in> set (running_full d)" "incompleteSync d = Some r"
       "\<forall>r' \<in> set (running_full d). started_at r' \<le> started_at r" by blast
  then show "\<exists>r \<in> set (running_full d).
         (\<forall>r' \<in> set (running_full d). started_at r' \<le> started_at r) \<and>
         syncId (initialLoad_start now d) = run_id r \<and>
         (\<forall>k. last_api_offset r = Some k \<longrightarrow>
              offset (initialLoad_start now d) = k + BATCH_SIZE) \<and>
         totalFetched (initialLoad_start now d) = records_fetched r \<and>
         totalAdded (initialLoad_start now d) = records_added r \<and>
         apiCalls (initialLoad_start now d) = api_calls_made r \<and>
         sdb (initialLoad_start now d) = d"
    by (intro bexI [where x = r]) (simp_all add: initialLoad_start_def or0_def)
next
  assume "running_full d = []"
  then have "incompleteSync d = None"
    by (simp add: incompleteSync_def running_full_def)
  then show "initialLoad_start now d =
        \<lparr>syncId = next_run_id (sync_log d), offset = 0, totalFetched = 0, totalAdded = 0,
         totalUpdated = 0, totalUnchanged = 0, apiCalls = 0,
         sdb = snd (createSyncLog now d ''full'')\<rparr>"
    by (simp add: initialLoad_start_def createSyncLog_result)
next
  show "dailySync_start now d =
     \<lparr>syncId = next_run_id (sync_log d), offset = 0, totalFetched = 0, totalAdded = 0,
      totalUpdated = 0, totalUnchanged = 0, apiCalls = 0,
      sdb = snd (createSyncLog now d ''incremental'')\<rparr>"
    by (simp add: dailySync_start_def createSyncLog_result)
next
  assume h: "4 \<le> length script \<and> (\<forall>x \<in> set (take 4 script). throttled_outcome x)"
  then obtain t where t: "initial_loop 0 script s =
      initial_failed t (ApiError ''Rate limit exceeded after 3 retries. Please try again later.'') s"
    using initial_loop_throttled [of 0 script s] by auto
  show "ends_with (initial_loop 0 script s) 1 ''failed'' (syncId s)"
    by (simp add: t ends_with_initial_failed)
  show "map last_api_offset (sync_log (db_of (initial_loop 0 script s))) =
        map last_api_offset (sync_log (sdb s))"
    by (simp add: t initial_failed_checkpoint)
qed

text \<open>
  C1, as stated, fails.  An incremental sync interrupted after its first page leaves a
  run \<open>'running'\<close> with checkpoint 0; the next \<open>dailySync\<close> does not resume it: it
  creates run 2 and starts at offset 0 with no record fetched.  A full load that is
  throttled four times after its first page leaves its run \<open>'failed'\<close> with checkpoint
  0; the next \<open>initialLoad\<close> looks for \<open>'running'\<close> runs only, creates run 2 and
  starts at offset 0.
\<close>

theorem no_resume_of_incremental_or_failed:
  "map checkpoint (sync_log interrupted_daily) = [(''incremental'', ''running'', Some 0)] \<and>
   syncId (dailySync_start 9 interrupted_daily) = 2 \<and>
   offset (dailySync_start 9 interrupted_daily) = 0 \<and>
   totalFetched (dailySync_start 9 interrupted_daily) = 0 \<and>
   map checkpoint (sync_log throttled_load) = [(''full'', ''failed'', Some 0)] \<and>
   syncId (initialLoad_start 9 throttled_load) = 2 \<and>
   offset (initialLoad_start 9 throttled_load) = 0 \<and>
   totalFetched (initialLoad_start 9 throttled_load) = 0"
  by code_simp

lemma running_full_interrupted_load:
  "map checkpoint (running_full interrupted_load) = [(''full'', ''running'', Some 0)]"
  by code_simp

lemma four_throttles_throttled:
  "4 \<le> length four_throttles \<and> (\<forall>x \<in> set (take 4 four_throttles). throttled_outcome x)"
  by code_simp

lemma resumed_state:
  "syncId (initialLoad_start 9 interrupted_load) = 1 \<and>
   offset (initialLoad_start 9 interrupted_load) = 100 \<and>
   totalFetched (initialLoad_start 9 interrupted_load) = 1 \<and>
   totalAdded (initialLoad_start 9 interrupted_load) = 1 \<and>
   apiCalls (initialLoad_start 9 interrupted_load) = 1 \<and>
   sdb (initialLoad_start 9 interrupted_load) = interrupted_load"
  by code_simp

theorem resume_and_restart_witness:
  "running_full interrupted_load \<noteq> [] \<and>
   syncId (initialLoad_start 9 interrupted_load) = 1 \<and>
   offset (initialLoad_start 9 interrupted_load) = 100 \<and>
   totalFetched (initialLoad_start 9 interrupted_load) = 1 \<and>
   4 \<le> length four_throttles \<and> list_all throttled_outcome (take 4 four_throttles) \<and>
   ends_with (initial_loop 0 four_throttles (initialLoad_start 9 interrupted_load)) 1 ''failed'' 1 \<and>
   map last_api_offset
     (sync_log (db_of (initial_loop 0 four_throttles (initialLoad_start 9 interrupted_load)))) =
     [Some 0]"
proof -
  have a: "running_full interrupted_load \<noteq> []"
    using running_full_interrupted_load by auto
  have b: "map last_api_offset (sync_log interrupted_load) = [Some 0]" by code_simp
  from resume_and_restart [of interrupted_load 9 four_throttles "initialLoad_start 9 interrupted_load"]
    a b four_throttles_throttled resumed_state
  show ?thesis by (simp add: list_all_iff)
qed


end
